theory Spec2Isabelle
  imports Complex_Main "HOL-Library.Char_ord" "HOL-Library.List_Lexorder"
begin

section \<open>Strings and regular expressions\<close>

text \<open>
  A JavaScript string is modelled as an Isabelle \<open>string\<close>: one \<open>char\<close> is one UTF-16 code
  unit, read as its code point, so the model covers the code units \<open>0..255\<close>.
  The character classes below are the ECMAScript ones cut down to that range:
  \<open>\s\<close> (and \<open>String.prototype.trim\<close>) is TAB, LF, VT, FF, CR, SPACE and NBSP;
  \<open>\w\<close> (and so \<open>\b\<close>) is \<open>[A-Za-z0-9_]\<close>; \<open>.\<close> excludes LF and CR.
\<close>

definition is_space :: "char \<Rightarrow> bool" where
  "is_space c = (let n = (of_char c :: nat) in (9 \<le> n \<and> n \<le> 13) \<or> n = 32 \<or> n = 160)"

definition is_word :: "char \<Rightarrow> bool" where
  "is_word c = (let n = (of_char c :: nat) in
     (97 \<le> n \<and> n \<le> 122) \<or> (65 \<le> n \<and> n \<le> 90) \<or> (48 \<le> n \<and> n \<le> 57) \<or> n = 95)"

definition is_line_terminator :: "char \<Rightarrow> bool" where
  "is_line_terminator c = (let n = (of_char c :: nat) in n = 10 \<or> n = 13)"

text \<open>
  \<open>Canonicalize\<close> of the ECMAScript RegExp semantics under the \<open>i\<close> flag (no \<open>u\<close> flag):
  the code unit of the upper-cased character, unless upper-casing gives more than one
  code unit (\<open>0xDF\<close>) or takes a code unit from 128 on into ASCII. On the code units
  \<open>0..255\<close>: \<open>a..z\<close> and \<open>0xE0..0xFE\<close> without \<open>0xF7\<close> lose 32, \<open>0xFF\<close> goes to
  \<open>0x178\<close>, \<open>0xB5\<close> to \<open>0x39C\<close>, and everything else stays.
\<close>

definition canonicalize :: "char \<Rightarrow> nat" where
  "canonicalize c = (let n = (of_char c :: nat) in
     if (97 \<le> n \<and> n \<le> 122) \<or> (224 \<le> n \<and> n \<le> 254 \<and> n \<noteq> 247) then n - 32
     else if n = 255 then 376 else if n = 181 then 924 else n)"

text \<open>
  The syntax of the regular expressions the scanner uses. \<open>Cls neg items\<close> is a character
  class \<open>[...]\<close> (\<open>[^...]\<close> when \<open>neg\<close>); \<open>WordB\<close> is \<open>\b\<close>. A lazy quantifier accepts
  the same strings as the greedy one, and \<open>RegExp.prototype.test\<close> only asks whether some
  match exists, so \<open>*?\<close> is \<open>Star\<close> too.
\<close>

datatype citem = CChar char | CSpace | CNonSpace

datatype rx = Lit char | Dot | Cls bool "citem list" | WordB | Eps
  | Seq rx rx | Alt rx rx | Star rx

fun citem_match :: "bool \<Rightarrow> citem \<Rightarrow> char \<Rightarrow> bool" where
  "citem_match ci (CChar a) c = (if ci then canonicalize a = canonicalize c else a = c)"
| "citem_match ci CSpace c = is_space c"
| "citem_match ci CNonSpace c = (\<not> is_space c)"

text \<open>
  A position in the input is the code unit just before it (\<open>None\<close> at the start) and
  the rest of the input from it on. \<open>ends ci r p\<close> lists the positions where a match of
  \<open>r\<close> that starts at position \<open>p\<close> can end (\<open>ci\<close> is the \<open>i\<close> flag). As in
  ECMAScript's RepeatMatcher, an iteration of a star that consumes nothing is not repeated.
\<close>

type_synonym pos = "char option \<times> string"

definition word_before :: "pos \<Rightarrow> bool" where
  "word_before p = (case fst p of None \<Rightarrow> False | Some c \<Rightarrow> is_word c)"

definition word_after :: "pos \<Rightarrow> bool" where
  "word_after p = (case snd p of [] \<Rightarrow> False | c # cs \<Rightarrow> is_word c)"

function (sequential) ends :: "bool \<Rightarrow> rx \<Rightarrow> pos \<Rightarrow> pos list" where
  "ends ci (Lit a) (b, []) = []"
| "ends ci (Lit a) (b, c # cs) = (if citem_match ci (CChar a) c then [(Some c, cs)] else [])"
| "ends ci Dot (b, []) = []"
| "ends ci Dot (b, c # cs) = (if \<not> is_line_terminator c then [(Some c, cs)] else [])"
| "ends ci (Cls neg items) (b, []) = []"
| "ends ci (Cls neg items) (b, c # cs) =
     (if list_ex (\<lambda>it. citem_match ci it c) items \<noteq> neg then [(Some c, cs)] else [])"
| "ends ci WordB p = (if word_before p \<noteq> word_after p then [p] else [])"
| "ends ci Eps p = [p]"
| "ends ci (Seq r1 r2) p = concat (map (ends ci r2) (ends ci r1 p))"
| "ends ci (Alt r1 r2) p = ends ci r1 p @ ends ci r2 p"
| "ends ci (Star r) p =
     p # concat (map (ends ci (Star r))
                     (filter (\<lambda>q. length (snd q) < length (snd p)) (ends ci r p)))"
  by pat_completeness auto
termination
  by (relation "inv_image (less_than <*lex*> less_than)
                  (\<lambda>(ci, r, p). (size r, length (snd p)))") auto

text \<open>A compiled \<open>RegExp\<close> object: its source and its \<open>i\<close> flag (none has the \<open>g\<close> flag,
  so \<open>test\<close> keeps no state between calls). \<open>test\<close> tries every start position, from
  the left.\<close>

record regexp =
  source :: rx
  ignoreCase :: bool

fun find_match :: "bool \<Rightarrow> rx \<Rightarrow> char option \<Rightarrow> string \<Rightarrow> bool" where
  "find_match ci r b [] = (ends ci r (b, []) \<noteq> [])"
| "find_match ci r b (c # cs) = (ends ci r (b, c # cs) \<noteq> [] \<or> find_match ci r (Some c) cs)"

definition test :: "regexp \<Rightarrow> string \<Rightarrow> bool" where
  "test re s = find_match (ignoreCase re) (source re) None s"

text \<open>Notation for writing the patterns down.\<close>

fun str :: "string \<Rightarrow> rx" where
  "str [] = Eps"
| "str (c # cs) = Seq (Lit c) (str cs)"

fun seqs :: "rx list \<Rightarrow> rx" where
  "seqs [] = Eps"
| "seqs (r # rs) = Seq r (seqs rs)"

fun alts :: "rx list \<Rightarrow> rx" where
  "alts [] = Cls False []"
| "alts [r] = r"
| "alts (r # rs) = Alt r (alts rs)"

definition plus :: "rx \<Rightarrow> rx" where
  "plus r = Seq r (Star r)"

definition opt :: "rx \<Rightarrow> rx" where
  "opt r = Alt r Eps"

definition ws :: rx where
  "ws = Cls False [CSpace]"

definition rxi :: "rx \<Rightarrow> regexp" where
  "rxi r = \<lparr>source = r, ignoreCase = True\<rparr>"

text \<open>The pattern \<open>/\|\s*word\b/i\<close>.\<close>

definition pipe_cmd :: "string \<Rightarrow> regexp" where
  "pipe_cmd w = rxi (seqs [Lit CHR ''|'', Star ws, str w, WordB])"

section \<open>JavaScript values\<close>

text \<open>
  The values that cross the untyped boundaries of the program (tool arguments, backend
  records, tool results): JSON values and \<open>undefined\<close>. An object is the list of its
  own properties in enumeration order; a property is looked up by its first entry.
\<close>

datatype json = JUndefined | JNull | JBool bool | JNum real | JStr string
  | JArr "json list" | JObj "(string \<times> json) list"

fun truthy :: "json \<Rightarrow> bool" where
  "truthy JUndefined = False"
| "truthy JNull = False"
| "truthy (JBool b) = b"
| "truthy (JNum x) = (x \<noteq> 0)"
| "truthy (JStr s) = (s \<noteq> [])"
| "truthy (JArr xs) = True"
| "truthy (JObj kvs) = True"

text \<open>\<open>a || b\<close> and property access \<open>o.k\<close> on an object.\<close>

definition js_or :: "json \<Rightarrow> json \<Rightarrow> json" where
  "js_or a b = (if truthy a then a else b)"

definition js_get :: "(string \<times> json) list \<Rightarrow> string \<Rightarrow> json" where
  "js_get kvs k = (case map_of kvs k of None \<Rightarrow> JUndefined | Some v \<Rightarrow> v)"

section \<open>Error types (types.ts)\<close>

record SplunkMCPError =
  name :: string
  message :: string
  code :: string
  isSecurityError :: bool
  isRetryable :: bool
  statusCode :: "int option"





definition SplunkAPIError :: "string \<Rightarrow> int option \<Rightarrow> bool \<Rightarrow> SplunkMCPError" where
  "SplunkAPIError msg sc retryable = \<lparr>name = ''SplunkAPIError'', message = msg,
     code = ''SPLUNK_API_ERROR'', isSecurityError = False, isRetryable = retryable,
     statusCode = sc\<rparr>"

section \<open>Security scanner (security/scanner.ts)\<close>

datatype severity = Low | Medium | High | Critical

datatype risk_level = RNone | RLow | RMedium | RHigh | RCritical

datatype issue_type = injection | read_only_violation | prompt_injection | data_exfiltration

text \<open>\<open>pattern\<close> holds \<open>pattern.source\<close>, the text of the expression, as its syntax tree.\<close>

record SecurityIssue =
  itype :: issue_type
  severity :: severity
  description :: string
  pattern :: rx

record ScanResult =
  safe :: bool
  risk :: risk_level
  issues :: "SecurityIssue list"

record rule =
  rule_pattern :: regexp
  rule_description :: string

record spl_rule = rule +
  rule_severity :: severity

definition READ_ONLY_VIOLATIONS :: "rule list" where
  "READ_ONLY_VIOLATIONS = [
    \<lparr>rule_pattern = pipe_cmd ''delete'', rule_description = ''DELETE command detected''\<rparr>,
    \<lparr>rule_pattern = pipe_cmd ''collect'',
     rule_description = ''COLLECT command detected (writes to index)''\<rparr>,
    \<lparr>rule_pattern = pipe_cmd ''outputcsv'', rule_description = ''OUTPUTCSV command detected''\<rparr>,
    \<lparr>rule_pattern = pipe_cmd ''outputlookup'',
     rule_description = ''OUTPUTLOOKUP command detected''\<rparr>,
    \<lparr>rule_pattern = pipe_cmd ''sendemail'', rule_description = ''SENDEMAIL command detected''\<rparr>,
    \<lparr>rule_pattern = pipe_cmd ''sendalert'', rule_description = ''SENDALERT command detected''\<rparr>,
    \<lparr>rule_pattern = pipe_cmd ''script'', rule_description = ''SCRIPT command detected''\<rparr>,
    \<lparr>rule_pattern = pipe_cmd ''run'', rule_description = ''RUN command detected''\<rparr>,
    \<lparr>rule_pattern = pipe_cmd ''runshellscript'',
     rule_description = ''RUNSHELLSCRIPT command detected''\<rparr>,
    \<lparr>rule_pattern = pipe_cmd ''mcollect'', rule_description = ''MCOLLECT command detected''\<rparr>,
    \<lparr>rule_pattern = pipe_cmd ''meventcollect'',
     rule_description = ''MEVENTCOLLECT command detected''\<rparr>]"

definition SPL_INJECTION_PATTERNS :: "spl_rule list" where
  "SPL_INJECTION_PATTERNS = [
    \<lparr>rule_pattern = rxi (seqs [Lit CHR ''|'', Star ws, str ''eval'', plus ws, Star Dot, WordB,
                               str ''exec'', Star ws, Lit CHR ''(''] ),
     rule_description = ''Command execution via eval'', rule_severity = Critical\<rparr>,
    \<lparr>rule_pattern = pipe_cmd ''python'',
     rule_description = ''Python script execution'', rule_severity = Critical\<rparr>,
    \<lparr>rule_pattern = pipe_cmd ''ruby'',
     rule_description = ''Ruby script execution'', rule_severity = Critical\<rparr>,
    \<lparr>rule_pattern = pipe_cmd ''perl'',
     rule_description = ''Perl script execution'', rule_severity = Critical\<rparr>,
    \<lparr>rule_pattern = rxi (seqs [Lit CHR ''|'', Star ws, str ''rest'', plus ws,
                               str ''/services/server/control'']),
     rule_description = ''Server control API access'', rule_severity = Critical\<rparr>,
    \<lparr>rule_pattern = rxi (seqs [Lit CHR ''|'', Star ws, str ''rest'', plus ws,
                               str ''/services/admin'']),
     rule_description = ''Admin API access'', rule_severity = High\<rparr>,
    \<lparr>rule_pattern = rxi (seqs [Lit CHR ''|'', Star ws, str ''rest'', plus ws, Star Dot, WordB,
                               str ''password'', WordB]),
     rule_description = ''Password-related API access'', rule_severity = High\<rparr>,
    \<lparr>rule_pattern = rxi (seqs [Lit CHR ''|'', Star ws, str ''inputcsv'', plus ws,
                               Star (Cls True [CChar CHR ''|'']), str ''..'']),
     rule_description = ''Path traversal in inputcsv'', rule_severity = High\<rparr>,
    \<lparr>rule_pattern = rxi (seqs [Lit CHR ''|'', Star ws, str ''inputlookup'', plus ws,
                               Star (Cls True [CChar CHR ''|'']), str ''..'']),
     rule_description = ''Path traversal in inputlookup'', rule_severity = High\<rparr>,
    \<lparr>rule_pattern = rxi (seqs [str ''```'', Star (Cls False [CSpace, CNonSpace]),
                               Lit CHR ''|'']),
     rule_description = ''Markdown code block with pipe'', rule_severity = Medium\<rparr>,
    \<lparr>rule_pattern = rxi (seqs [Lit CHR ''['', Star ws, Lit CHR ''|'', Star ws,
                               str ''makeresults'']),
     rule_description = ''Suspicious subsearch with makeresults'', rule_severity = Medium\<rparr>]"

definition PROMPT_INJECTION_PATTERNS :: "rule list" where
  "PROMPT_INJECTION_PATTERNS = [
    \<lparr>rule_pattern = rxi (seqs [alts [str ''ignore'', str ''override'', str ''skip'', str ''disable''],
                               Star Dot,
                               alts [str ''previous'', str ''above'', str ''instruction'',
                                     str ''directive'']]),
     rule_description = ''Instruction override attempt''\<rparr>,
    \<lparr>rule_pattern = rxi (seqs [alts [str ''forget'', str ''disregard''], Star Dot,
                               alts [str ''rule'', str ''constraint'', str ''limitation'']]),
     rule_description = ''Rule bypass attempt''\<rparr>,
    \<lparr>rule_pattern = rxi (seqs [str ''pretend'', plus ws,
                               alts [seqs [str ''you'', plus ws, str ''are''],
                                     seqs [str ''to'', plus ws, str ''be'']]]),
     rule_description = ''Identity manipulation''\<rparr>,
    \<lparr>rule_pattern = rxi (seqs [str ''you'', plus ws, str ''are'', plus ws, str ''now'', plus ws,
                               alts [str ''a'', str ''an'']]),
     rule_description = ''Role reassignment''\<rparr>,
    \<lparr>rule_pattern = rxi (seqs [str ''act'', plus ws, str ''as'', plus ws,
                               alts [str ''if'', str ''though'']]),
     rule_description = ''Behavior modification''\<rparr>,
    \<lparr>rule_pattern = rxi (seqs [str ''system'', Star ws, Lit CHR '':'', Star ws, str ''you'',
                               plus ws, str ''are'']),
     rule_description = ''Fake system prompt''\<rparr>,
    \<lparr>rule_pattern = rxi (seqs [Lit CHR ''<'', opt (Lit CHR ''/''), str ''system>'']),
     rule_description = ''System tag injection''\<rparr>,
    \<lparr>rule_pattern = rxi (str ''[INST]''),
     rule_description = ''Instruction format injection''\<rparr>,
    \<lparr>rule_pattern = rxi (seqs [str ''###'', Star ws,
                               alts [str ''system'', str ''instruction'', str ''human'',
                                     str ''assistant'']]),
     rule_description = ''Format injection''\<rparr>,
    \<lparr>rule_pattern = rxi (seqs [str ''new'', plus ws, str ''instruction'', opt (Lit CHR ''s''),
                               Star ws, Lit CHR '':'']),
     rule_description = ''New instructions injection''\<rparr>]"

definition DATA_EXFILTRATION_PATTERNS :: "rule list" where
  "DATA_EXFILTRATION_PATTERNS = [
    \<lparr>rule_pattern = pipe_cmd ''curl'', rule_description = ''HTTP request via curl''\<rparr>,
    \<lparr>rule_pattern = pipe_cmd ''wget'', rule_description = ''HTTP request via wget''\<rparr>,
    \<lparr>rule_pattern = rxi (seqs [str ''http'', opt (Lit CHR ''s''), str ''://'',
                               plus (Cls True [CSpace, CChar (CHR 0x22), CChar (CHR 0x27),
                                               CChar CHR '']''])]),
     rule_description = ''External URL reference''\<rparr>,
    \<lparr>rule_pattern = rxi (seqs [Lit CHR ''|'', Star ws, str ''rest'', plus ws, str ''http'',
                               opt (Lit CHR ''s''), str ''://'']),
     rule_description = ''External REST call''\<rparr>]"

definition determineRiskLevel :: "SecurityIssue list \<Rightarrow> risk_level" where
  "determineRiskLevel is =
     (if length is = 0 then RNone
      else if list_ex (\<lambda>i. severity i = Critical) is then RCritical
      else if list_ex (\<lambda>i. severity i = High) is then RHigh
      else if list_ex (\<lambda>i. severity i = Medium) is then RMedium
      else RLow)"

text \<open>The four loops of \<open>scanQuery\<close>, each pushing one issue per matching rule, in table
  order.\<close>

definition scanQuery :: "string \<Rightarrow> ScanResult" where
  "scanQuery query =
     (let is =
        map (\<lambda>r. \<lparr>itype = read_only_violation, severity = Critical,
                   description = rule_description r, pattern = source (rule_pattern r)\<rparr>)
            (filter (\<lambda>r. test (rule_pattern r) query) READ_ONLY_VIOLATIONS) @
        map (\<lambda>r. \<lparr>itype = injection, severity = rule_severity r,
                   description = rule_description r, pattern = source (rule_pattern r)\<rparr>)
            (filter (\<lambda>r. test (rule_pattern r) query) SPL_INJECTION_PATTERNS) @
        map (\<lambda>r. \<lparr>itype = prompt_injection, severity = High,
                   description = rule_description r, pattern = source (rule_pattern r)\<rparr>)
            (filter (\<lambda>r. test (rule_pattern r) query) PROMPT_INJECTION_PATTERNS) @
        map (\<lambda>r. \<lparr>itype = data_exfiltration, severity = Medium,
                   description = rule_description r, pattern = source (rule_pattern r)\<rparr>)
            (filter (\<lambda>r. test (rule_pattern r) query) DATA_EXFILTRATION_PATTERNS)
      in \<lparr>safe = (length is = 0), risk = determineRiskLevel is, issues = is\<rparr>)"

text \<open>\<open>Array.prototype.join\<close> on strings.\<close>

fun join :: "string \<Rightarrow> string list \<Rightarrow> string" where
  "join sep [] = []"
| "join sep [x] = x"
| "join sep (x # xs) = x @ sep @ join sep xs"





section \<open>Field names of the correlate tool (security/validators.ts, tools/correlate.ts)\<close>




text \<open>Vocabulary of the statements about the scanner: the order of the severities and
  of the risk levels, every pattern of the four tables, and strings that differ only in
  the case of their letters (\<open>A..Z\<close> and \<open>0xC0..0xDE\<close> without \<open>0xD7\<close> gain 32 in lower
  case).\<close>

fun sev_rank :: "severity \<Rightarrow> nat" where
  "sev_rank Low = 1"
| "sev_rank Medium = 2"
| "sev_rank High = 3"
| "sev_rank Critical = 4"

fun risk_rank :: "risk_level \<Rightarrow> nat" where
  "risk_rank RNone = 0"
| "risk_rank RLow = 1"
| "risk_rank RMedium = 2"
| "risk_rank RHigh = 3"
| "risk_rank RCritical = 4"

definition listed_patterns :: "regexp list" where
  "listed_patterns =
     map rule_pattern READ_ONLY_VIOLATIONS @ map rule_pattern SPL_INJECTION_PATTERNS @
     map rule_pattern PROMPT_INJECTION_PATTERNS @ map rule_pattern DATA_EXFILTRATION_PATTERNS"






section \<open>Splunk client (splunk/client.ts)\<close>

text \<open>The fields of \<open>EventSchema\<close>; \<open>_time\<close> and \<open>_raw\<close> are \<open>ev_time\<close> and \<open>ev_raw\<close>.\<close>

record Event =
  ev_time :: string
  ev_raw :: string
  ev_indextime :: "string option"
  ev_host :: "string option"
  ev_source :: "string option"
  ev_sourcetype :: "string option"
  ev_index :: "string option"
  ev_fields :: "(string \<times> json) list"

text \<open>\<open>z.string().optional()\<close>: \<open>None\<close> is a validation failure.\<close>

definition opt_string :: "json \<Rightarrow> string option option" where
  "opt_string v = (case v of JUndefined \<Rightarrow> Some None | JStr s \<Rightarrow> Some (Some s) | _ \<Rightarrow> None)"

text \<open>\<open>z.record(z.unknown()).default({})\<close>.\<close>

definition opt_record :: "json \<Rightarrow> (string \<times> json) list option" where
  "opt_record v = (case v of JUndefined \<Rightarrow> Some [] | JObj kvs \<Rightarrow> Some kvs | _ \<Rightarrow> None)"

text \<open>\<open>EventSchema.safeParse\<close>: \<open>None\<close> when \<open>success\<close> is false. Unknown keys are
  stripped.\<close>

definition EventSchema_parse :: "json \<Rightarrow> Event option" where
  "EventSchema_parse v =
     (case v of
        JObj kvs \<Rightarrow>
          (case (js_get kvs ''_time'', js_get kvs ''_raw'') of
             (JStr t, JStr r) \<Rightarrow>
               Option.bind (opt_string (js_get kvs ''_indextime'')) (\<lambda>it.
               Option.bind (opt_string (js_get kvs ''host'')) (\<lambda>h.
               Option.bind (opt_string (js_get kvs ''source'')) (\<lambda>so.
               Option.bind (opt_string (js_get kvs ''sourcetype'')) (\<lambda>st.
               Option.bind (opt_string (js_get kvs ''index'')) (\<lambda>ix.
               Option.bind (opt_record (js_get kvs ''fields'')) (\<lambda>fs.
                 Some \<lparr>ev_time = t, ev_raw = r, ev_indextime = it, ev_host = h,
                        ev_source = so, ev_sourcetype = st, ev_index = ix,
                        ev_fields = fs\<rparr>))))))
           | _ \<Rightarrow> None)
      | _ \<Rightarrow> None)"

text \<open>\<open>parseEvents\<close>: a raw record is a JSON object; the rest pattern of the destructuring
  collects the properties that are not named. A record that fails validation is dropped.\<close>

definition named_keys :: "string list" where
  "named_keys = [''_time'', ''_raw'', ''_indextime'', ''host'', ''source'', ''sourcetype'', ''index'']"

definition parseEvent :: "(string \<times> json) list \<Rightarrow> Event option" where
  "parseEvent raw =
     EventSchema_parse (JObj [
       (''_time'', js_or (js_get raw ''_time'') (JStr [])),
       (''_raw'', js_or (js_get raw ''_raw'') (JStr [])),
       (''_indextime'', js_get raw ''_indextime''),
       (''host'', js_get raw ''host''),
       (''source'', js_get raw ''source''),
       (''sourcetype'', js_get raw ''sourcetype''),
       (''index'', js_get raw ''index''),
       (''fields'', JObj (filter (\<lambda>kv. fst kv \<notin> set named_keys) raw))])"

definition parseEvents :: "(string \<times> json) list list \<Rightarrow> Event list" where
  "parseEvents rawEvents = List.map_filter parseEvent rawEvents"

text \<open>The fields of \<open>SplunkJobStatus\<close> that the client reads; a message is its \<open>type\<close>
  and its \<open>text\<close>.\<close>

record SplunkJobStatus =
  resultCount :: nat
  isDone :: bool
  isFailed :: bool
  messages :: "(string \<times> string) list"

text \<open>
  The backend and the clock, as the client sees them. Times are milliseconds. Every
  request carries the time it takes and its outcome, \<open>Inl\<close> for a rejected promise
  (transport failure, failed re-authentication, \<open>Invalid job status response\<close>):
  \<^item> \<open>getClient t\<close>: the error \<open>getClient()\<close> throws when called at time \<open>t\<close>, if any;
  \<^item> \<open>create_job\<close>: the POST that creates (or dispatches) the job, giving
    \<open>data?.sid\<close> (\<open>None\<close> when undefined);
  \<^item> \<open>job_status k\<close>: the \<open>k\<close>-th call of \<open>getJobStatus\<close> for the job, from 0;
  \<^item> \<open>sleep_lag k\<close>: how much later than 500 ms the \<open>k\<close>-th \<open>setTimeout\<close> fires;
  \<^item> \<open>job_results\<close>: the GET of the results, giving \<open>data?.results\<close>;
  \<^item> \<open>cancel_job\<close>: the DELETE of the job.
  The request parameters other than the result cap and the timeout (query, time range,
  app, owner) only travel to the backend, whose answers are given here.
\<close>

record backend =
  getClient :: "nat \<Rightarrow> SplunkMCPError option"
  create_job :: "nat \<times> (SplunkMCPError + string option)"
  job_status :: "nat \<Rightarrow> nat \<times> (SplunkMCPError + SplunkJobStatus)"
  sleep_lag :: "nat \<Rightarrow> nat"
  job_results :: "nat \<times> (SplunkMCPError + (string \<times> json) list list option)"
  cancel_job :: "nat \<times> (SplunkMCPError + unit)"

text \<open>Decimal rendering of a number in a template literal.\<close>

fun show_nat :: "nat \<Rightarrow> string" where
  "show_nat n =
     (if n < 10 then [char_of (48 + n)] else show_nat (n div 10) @ [char_of (48 + n mod 10)])"

text \<open>
  What a call of \<open>waitForJob\<close> did: how it completed, the time when it did, how many status
  requests it made, and whether it sent the cancel request.
\<close>

record wait_result =
  outcome :: "SplunkMCPError + unit"
  finished_at :: nat
  polls :: nat
  cancel_sent :: bool

definition job_failure :: "SplunkJobStatus \<Rightarrow> SplunkMCPError" where
  "job_failure status =
     (let errorMsg = join ''; '' (map snd (filter (\<lambda>m. fst m = ''ERROR'' \<or> fst m = ''FATAL'')
                                              (messages status)))
      in SplunkAPIError
           (''Search job failed: '' @ (if errorMsg = [] then ''Unknown error'' else errorMsg))
           None False)"

text \<open>The \<open>while\<close> loop of \<open>waitForJob\<close> and what follows it; \<open>now\<close> is \<open>Date.now()\<close> at the
  loop test and \<open>k\<close> counts the status requests made so far. The outcome of the cancel
  request is not looked at.\<close>

function waitForJob_loop :: "backend \<Rightarrow> nat \<Rightarrow> nat \<Rightarrow> nat \<Rightarrow> nat \<Rightarrow> wait_result" where
  "waitForJob_loop be timeout startTime now k =
     (if now - startTime < timeout * 1000 then
        (case job_status be k of
           (d, Inl e) \<Rightarrow>
             \<lparr>outcome = Inl e, finished_at = now + d, polls = Suc k, cancel_sent = False\<rparr>
         | (d, Inr status) \<Rightarrow>
             if isDone status then
               (if isFailed status
                then \<lparr>outcome = Inl (job_failure status), finished_at = now + d, polls = Suc k,
                       cancel_sent = False\<rparr>
                else \<lparr>outcome = Inr (), finished_at = now + d, polls = Suc k,
                       cancel_sent = False\<rparr>)
             else waitForJob_loop be timeout startTime (now + d + 500 + sleep_lag be k) (Suc k))
      else
        \<lparr>outcome = Inl (SplunkAPIError (''Search job timed out after '' @ show_nat timeout @
                                         '' seconds'') None True),
          finished_at = now + fst (cancel_job be), polls = k, cancel_sent = True\<rparr>)"
  by pat_completeness auto
termination
  by (relation "measure (\<lambda>(be, timeout, startTime, now, k). timeout * 1000 + startTime - now)")
     auto

definition waitForJob :: "backend \<Rightarrow> nat \<Rightarrow> nat \<Rightarrow> wait_result" where
  "waitForJob be timeout t =
     (case getClient be t of
        Some e \<Rightarrow> \<lparr>outcome = Inl e, finished_at = t, polls = 0, cancel_sent = False\<rparr>
      | None \<Rightarrow> waitForJob_loop be timeout t t 0)"

record SearchResult =
  sr_events :: "Event list"
  sr_totalCount :: nat
  sr_searchId :: string
  sr_executionTimeMs :: nat
  sr_truncated :: bool

text \<open>\<open>search\<close>, called at time \<open>startTime\<close> with the options \<open>maxResults\<close> and \<open>timeout\<close>
  (defaults already filled in). \<open>executionTimeMs\<close> is read once the results are parsed,
  before the last status request.\<close>

definition search :: "backend \<Rightarrow> nat \<Rightarrow> nat \<Rightarrow> nat \<Rightarrow> SplunkMCPError + SearchResult" where
  "search be startTime maxResults timeout =
     (case getClient be startTime of
        Some e \<Rightarrow> Inl e
      | None \<Rightarrow>
          (case create_job be of
             (d, Inl e) \<Rightarrow> Inl e
           | (d, Inr sid) \<Rightarrow>
               (case sid of
                  None \<Rightarrow> Inl (SplunkAPIError ''No search ID returned'' None False)
                | Some s \<Rightarrow>
                    if s = [] then Inl (SplunkAPIError ''No search ID returned'' None False)
                    else
                      (let w = waitForJob be timeout (startTime + d) in
                       case outcome w of
                         Inl e \<Rightarrow> Inl e
                       | Inr u \<Rightarrow>
                           (case job_results be of
                              (d', Inl e) \<Rightarrow> Inl e
                            | (d', Inr res) \<Rightarrow>
                                (let rawEvents = (case res of None \<Rightarrow> [] | Some rs \<Rightarrow> rs);
                                     events = parseEvents rawEvents;
                                     executionTimeMs = finished_at w + d' - startTime
                                 in case job_status be (polls w) of
                                      (d'', Inl e) \<Rightarrow> Inl e
                                    | (d'', Inr status) \<Rightarrow>
                                        Inr \<lparr>sr_events = events,
                                             sr_totalCount = resultCount status,
                                             sr_searchId = s,
                                             sr_executionTimeMs = executionTimeMs,
                                             sr_truncated = (resultCount status > maxResults)\<rparr>))))))"

text \<open>\<open>runSavedSearch\<close>, with \<open>settings.maxResults\<close> and \<open>settings.searchTimeout\<close>; \<open>startTime\<close>
  is read once the client is there, and \<open>executionTimeMs\<close> after the last status
  request.\<close>

definition runSavedSearch :: "backend \<Rightarrow> nat \<Rightarrow> nat \<Rightarrow> nat \<Rightarrow> SplunkMCPError + SearchResult" where
  "runSavedSearch be startTime settings_maxResults settings_searchTimeout =
     (case getClient be startTime of
        Some e \<Rightarrow> Inl e
      | None \<Rightarrow>
          (case create_job be of
             (d, Inl e) \<Rightarrow> Inl e
           | (d, Inr sid) \<Rightarrow>
               (case sid of
                  None \<Rightarrow> Inl (SplunkAPIError ''No search ID returned from saved search dispatch''
                                 None False)
                | Some s \<Rightarrow>
                    if s = []
                    then Inl (SplunkAPIError ''No search ID returned from saved search dispatch''
                                None False)
                    else
                      (let w = waitForJob be settings_searchTimeout (startTime + d) in
                       case outcome w of
                         Inl e \<Rightarrow> Inl e
                       | Inr u \<Rightarrow>
                           (case job_results be of
                              (d', Inl e) \<Rightarrow> Inl e
                            | (d', Inr res) \<Rightarrow>
                                (let rawEvents = (case res of None \<Rightarrow> [] | Some rs \<Rightarrow> rs);
                                     events = parseEvents rawEvents
                                 in case job_status be (polls w) of
                                      (d'', Inl e) \<Rightarrow> Inl e
                                    | (d'', Inr status) \<Rightarrow>
                                        Inr \<lparr>sr_events = events,
                                             sr_totalCount = resultCount status,
                                             sr_searchId = s,
                                             sr_executionTimeMs =
                                               finished_at w + d' + d'' - startTime,
                                             sr_truncated =
                                               (resultCount status > settings_maxResults)\<rparr>))))))"

text \<open>The number of events a result holds (\<open>returnedCount\<close> in the tools' metadata).\<close>

definition returnedCount :: "SearchResult \<Rightarrow> nat" where
  "returnedCount r = length (sr_events r)"

section \<open>Trust scoring (trust/etl-middleware.ts)\<close>

record SplunkSearchResult =
  events :: "Event list"
  totalEvents :: real
  returnedEvents :: real
  truncated :: bool
  searchId :: string
  executionTimeMs :: real
  error :: "string option"
  aggregations :: "(string \<times> json) list option"

text \<open>\<open>if (result.error)\<close>: the error is there and is not the empty string.\<close>

definition has_error :: "SplunkSearchResult \<Rightarrow> bool" where
  "has_error result = (case error result of None \<Rightarrow> False | Some e \<Rightarrow> e \<noteq> [])"

definition computeAuthority :: "SplunkSearchResult \<Rightarrow> real" where
  "computeAuthority result =
     (let score = 8 / 10;
          score = (if searchId result \<noteq> [] \<and> \<not> has_error result then score + 1 / 10 else score);
          score = (if aggregations result \<noteq> None then score + 1 / 10 else score)
      in min 1 score)"

text \<open>
  \<open>parseISO\<close> and \<open>differenceInHours\<close> come from the date-fns library. A date is a time in
  milliseconds or \<open>Invalid Date\<close>. \<open>parseISO\<close> is a parameter of the model, the outcome of
  the call on each string: date-fns documents that it returns \<open>Invalid Date\<close> for a string
  it cannot parse, and \<open>ParseThrows\<close> stands for an exception, which the \<open>catch\<close> block of
  \<open>computeFreshness\<close> provides for. \<open>differenceInHours\<close> is the difference in
  milliseconds over 3600000, rounded toward zero, and \<open>NaN\<close> (\<open>None\<close>) when the date is
  invalid; a comparison with \<open>NaN\<close> is false.
\<close>

datatype jsdate = InvalidDate | ValidDate int

datatype parse_outcome = ParseThrows | Parsed jsdate

definition differenceInHours :: "int \<Rightarrow> jsdate \<Rightarrow> int option" where
  "differenceInHours now d =
     (case d of
        InvalidDate \<Rightarrow> None
      | ValidDate t \<Rightarrow>
          Some (if now - t \<ge> 0 then (now - t) div 3600000 else - ((t - now) div 3600000)))"

definition timeStr_of :: "Event \<Rightarrow> string" where
  "timeStr_of event =
     (let timeStr = ev_time event
      in if CHR ''.'' \<in> set timeStr then takeWhile (\<lambda>c. c \<noteq> CHR ''.'') timeStr else timeStr)"

text \<open>The loop of \<open>computeFreshness\<close> over the events, on \<open>(recentCount, totalCount)\<close>.\<close>

fun freshness_loop :: "(string \<Rightarrow> parse_outcome) \<Rightarrow> int \<Rightarrow> Event list \<Rightarrow> nat \<times> nat
    \<Rightarrow> nat \<times> nat" where
  "freshness_loop parseISO now [] acc = acc"
| "freshness_loop parseISO now (event # rest) (recentCount, totalCount) =
     (case parseISO (timeStr_of event) of
        ParseThrows \<Rightarrow> freshness_loop parseISO now rest (recentCount, totalCount)
      | Parsed eventTime \<Rightarrow>
          (let ageHours = differenceInHours now eventTime
           in freshness_loop parseISO now rest
                (if (case ageHours of None \<Rightarrow> False | Some h \<Rightarrow> h \<le> 24)
                 then recentCount + 1 else recentCount,
                 totalCount + 1)))"

definition computeFreshness :: "(string \<Rightarrow> parse_outcome) \<Rightarrow> int \<Rightarrow> SplunkSearchResult \<Rightarrow> real" where
  "computeFreshness parseISO now result =
     (if length (events result) = 0 then 1 / 2
      else (case freshness_loop parseISO now (events result) (0, 0) of
              (recentCount, totalCount) \<Rightarrow>
                if totalCount = 0 then 1 / 2 else real recentCount / real totalCount))"

text \<open>\<open>!event[f]\<close> for an optional string field.\<close>

definition missing :: "string option \<Rightarrow> bool" where
  "missing v = (case v of None \<Rightarrow> True | Some s \<Rightarrow> s = [])"

text \<open>\<open>[...new Set(xs)]\<close>: the first occurrence of each element, in order.\<close>

definition uniq :: "'a list \<Rightarrow> 'a list" where
  "uniq xs = rev (remdups (rev xs))"

text \<open>The loop of \<open>computeCompletenessWithDetails\<close>, on
  \<open>(completeCount, totalCount, missingFields)\<close>.\<close>

fun completeness_loop :: "Event list \<Rightarrow> nat \<times> nat \<times> string list \<Rightarrow> nat \<times> nat \<times> string list" where
  "completeness_loop [] acc = acc"
| "completeness_loop (event # rest) (completeCount, totalCount, missingFields) =
     (let required_missing = (ev_time event = [] \<or> ev_raw event = []);
          pushed_required =
            (if required_missing
             then (if ev_time event = [] then [''_time''] else []) @
                  (if ev_raw event = [] then [''_raw''] else [])
             else []);
          commonMissing =
            map fst (filter (\<lambda>fv. missing (snd fv))
                       [(''source'', ev_source event), (''host'', ev_host event),
                        (''sourcetype'', ev_sourcetype event)]);
          eventComplete = (\<not> required_missing \<and> \<not> length commonMissing > 1)
      in completeness_loop rest
           (if eventComplete then completeCount + 1 else completeCount,
            totalCount + 1,
            missingFields @ pushed_required @
              (if length commonMissing > 1 then commonMissing else [])))"

definition computeCompletenessWithDetails :: "SplunkSearchResult \<Rightarrow> real \<times> string list" where
  "computeCompletenessWithDetails result =
     (if length (events result) = 0 then (0, [])
      else (case completeness_loop (events result) (0, 0, []) of
              (completeCount, totalCount, missingFields) \<Rightarrow>
                (if totalCount > 0 then real completeCount / real totalCount else 0,
                 uniq missingFields)))"

text \<open>\<open>Object.keys(event.fields).sort().join(',')\<close>: the default sort orders strings by
  their code units.\<close>

definition fieldKey :: "Event \<Rightarrow> string" where
  "fieldKey event = join '','' (sort (map fst (ev_fields event)))"

definition computeCoherence :: "SplunkSearchResult \<Rightarrow> real" where
  "computeCoherence result =
     (if length (events result) = 0 then 1 / 2
      else
        (let fieldKeys = map fieldKey (events result);
             counted = uniq fieldKeys;
             score = 1;
             score =
               (if length counted > 1 then
                  (let maxVariance =
                         real (fold max (map (count_list fieldKeys) counted) 0) /
                         real (length (events result))
                   in if maxVariance < 8 / 10 then score - 2 / 10 else score)
                else score);
             score = (if truncated result then score - 1 / 10 else score)
         in max 0 (min 1 score)))"

text \<open>\<open>String.prototype.trim\<close>.\<close>

definition trim :: "string \<Rightarrow> string" where
  "trim s = rev (dropWhile is_space (rev (dropWhile is_space s)))"

definition computeIntegrity :: "SplunkSearchResult \<Rightarrow> real" where
  "computeIntegrity result =
     (let score = 1;
          score = (if has_error result then score - 5 / 10 else score);
          score =
            (if length (events result) > 0 then
               (let invalidCount =
                      length (filter (\<lambda>event. ev_raw event = [] \<or> length (trim (ev_raw event)) = 0)
                                (events result));
                    invalidRatio = real invalidCount / real (length (events result))
                in score - invalidRatio * (3 / 10))
             else score);
          score =
            (if searchId result \<noteq> [] \<and> executionTimeMs result > 0 then
               (if executionTimeMs result < 100 then score + 5 / 100 else score)
             else score)
      in max 0 (min 1 score))"

definition computeTrackRecord :: "SplunkSearchResult \<Rightarrow> real" where
  "computeTrackRecord result =
     (let score = 7 / 10;
          score = (if searchId result \<noteq> [] \<and> \<not> has_error result then score + 2 / 10 else score);
          score = (if executionTimeMs result > 0 \<and> executionTimeMs result < 5000
                   then score + 1 / 10 else score)
      in min 1 score)"

definition computeCorroboration :: "real option" where
  "computeCorroboration = None"

record TrustDimension =
  authority :: real
  freshness :: real
  completeness :: real
  coherence :: real
  integrity :: real
  trackRecord :: real
  corroboration :: "real option"

text \<open>\<open>TrustDimensionSchema.parse\<close>: \<open>None\<close> when it throws.\<close>

definition unit_interval :: "real \<Rightarrow> bool" where
  "unit_interval x = (0 \<le> x \<and> x \<le> 1)"

definition TrustDimensionSchema_parse :: "TrustDimension \<Rightarrow> TrustDimension option" where
  "TrustDimensionSchema_parse d =
     (if unit_interval (authority d) \<and> unit_interval (freshness d) \<and>
         unit_interval (completeness d) \<and> unit_interval (coherence d) \<and>
         unit_interval (integrity d) \<and> unit_interval (trackRecord d) \<and>
         (case corroboration d of None \<Rightarrow> True | Some c \<Rightarrow> unit_interval c)
      then Some d else None)"

text \<open>\<open>computeDimensions\<close> also sets \<open>lastMissingFields\<close>, returned here with the
  dimensions.\<close>

definition computeDimensions :: "(string \<Rightarrow> parse_outcome) \<Rightarrow> int \<Rightarrow> SplunkSearchResult
    \<Rightarrow> (TrustDimension \<times> string list) option" where
  "computeDimensions parseISO now result =
     (let completenessResult = computeCompletenessWithDetails result
      in map_option (\<lambda>d. (d, snd completenessResult))
           (TrustDimensionSchema_parse
              \<lparr>authority = computeAuthority result,
               freshness = computeFreshness parseISO now result,
               completeness = fst completenessResult,
               coherence = computeCoherence result,
               integrity = computeIntegrity result,
               trackRecord = computeTrackRecord result,
               corroboration = computeCorroboration\<rparr>))"

datatype TrustThresholdDecision = PROCEED | CAUTION | DONT_RELY

record thresholds =
  trustThresholdProceed :: real
  trustThresholdCaution :: real

definition determineThresholdDecision :: "thresholds \<Rightarrow> real \<Rightarrow> TrustThresholdDecision" where
  "determineThresholdDecision cfg compositeScore =
     (if compositeScore \<ge> trustThresholdProceed cfg then PROCEED
      else if compositeScore \<ge> trustThresholdCaution cfg then CAUTION
      else DONT_RELY)"

text \<open>
  The factor and warning texts, each as the template it is built from and the values the
  template takes: \<open>QueryError e\<close> is the string \<open>Query error: \<close> followed by \<open>e\<close>.
\<close>

datatype factor = HighAuthority | RecentData | AggregationsAvailable | ExecutedSuccessfully
  | FastExecution

datatype warning = LowCompleteness real | StaleData real | ResultsTruncated real real
  | QueryError string | LowCoherence | SlowExecution real

record TrustFactors =
  factors :: "factor list"
  warnings :: "warning list"
  missingFields :: "string list"

definition generateFactors :: "SplunkSearchResult \<Rightarrow> TrustDimension \<Rightarrow> string list \<Rightarrow> TrustFactors" where
  "generateFactors result dimensions lastMissingFields =
     \<lparr>factors =
        (if authority dimensions \<ge> 8 / 10 then [HighAuthority] else []) @
        (if freshness dimensions \<ge> 7 / 10 then [RecentData] else []) @
        (if aggregations result \<noteq> None then [AggregationsAvailable] else []) @
        (if \<not> has_error result then [ExecutedSuccessfully] else []) @
        (if executionTimeMs result < 2000 then [FastExecution] else []),
      warnings =
        (if completeness dimensions < 7 / 10 then [LowCompleteness (completeness dimensions)] else []) @
        (if freshness dimensions < 1 / 2 then [StaleData (freshness dimensions)] else []) @
        (if truncated result
         then [ResultsTruncated (returnedEvents result) (totalEvents result)] else []) @
        (case error result of
           None \<Rightarrow> []
         | Some e \<Rightarrow> if e \<noteq> [] then [QueryError e] else []) @
        (if coherence dimensions < 7 / 10 then [LowCoherence] else []) @
        (if executionTimeMs result > 10000 then [SlowExecution (executionTimeMs result)] else []),
      missingFields = lastMissingFields\<rparr>"

text \<open>The trust metadata without \<open>agentDirective\<close> and \<open>computedAt\<close>, which are renderings
  of the fields kept here and of the clock.\<close>

record TrustMetadata =
  compositeScore :: real
  thresholdDecision :: TrustThresholdDecision
  dimensions :: TrustDimension
  trustFactors :: TrustFactors

text \<open>\<open>computeTrust\<close>: \<open>None\<close> when one of the schema checks throws. The scores are real
  numbers: the rounding of the program's floating-point arithmetic is not modelled, under
  which the weighted sum of dimensions close to 1 can exceed 1 by a rounding error and
  fail the schema check.\<close>

definition computeTrust :: "thresholds \<Rightarrow> (string \<Rightarrow> parse_outcome) \<Rightarrow> int \<Rightarrow> SplunkSearchResult
    \<Rightarrow> TrustMetadata option" where
  "computeTrust cfg parseISO now result =
     (case computeDimensions parseISO now result of
        None \<Rightarrow> None
      | Some (dims, lastMissingFields) \<Rightarrow>
          (let compositeScore =
                 authority dims * (2 / 10) + freshness dims * (2 / 10) +
                 completeness dims * (2 / 10) + coherence dims * (15 / 100) +
                 integrity dims * (15 / 100) + trackRecord dims * (1 / 10);
               compositeScore =
                 (case corroboration dims of
                    None \<Rightarrow> compositeScore
                  | Some c \<Rightarrow> compositeScore * (9 / 10) + c * (1 / 10));
               decision = determineThresholdDecision cfg compositeScore;
               fs = generateFactors result dims lastMissingFields
           in if unit_interval compositeScore
              then Some \<lparr>compositeScore = compositeScore, thresholdDecision = decision,
                          dimensions = dims, trustFactors = fs\<rparr>
              else None))"

section \<open>Server pipeline (server.ts)\<close>

text \<open>Property access \<open>v.k\<close> and \<open>v.length\<close> on a value that is neither \<open>null\<close> nor
  \<open>undefined\<close>.\<close>

definition js_prop :: "json \<Rightarrow> string \<Rightarrow> json" where
  "js_prop v k = (case v of JObj kvs \<Rightarrow> js_get kvs k | _ \<Rightarrow> JUndefined)"

definition js_length :: "json \<Rightarrow> json" where
  "js_length v =
     (case v of
        JArr xs \<Rightarrow> JNum (real (length xs))
      | JStr s \<Rightarrow> JNum (real (length s))
      | JObj kvs \<Rightarrow> js_get kvs ''length''
      | _ \<Rightarrow> JUndefined)"

text \<open>\<open>z.record(z.unknown()).optional()\<close>.\<close>

definition opt_object :: "json \<Rightarrow> (string \<times> json) list option option" where
  "opt_object v = (case v of JUndefined \<Rightarrow> Some None | JObj kvs \<Rightarrow> Some (Some kvs) | _ \<Rightarrow> None)"

text \<open>\<open>SplunkSearchResultSchema.parse\<close>: \<open>None\<close> when it throws.\<close>

definition SplunkSearchResultSchema_parse :: "json \<Rightarrow> SplunkSearchResult option" where
  "SplunkSearchResultSchema_parse v =
     (case v of
        JObj kvs \<Rightarrow>
          (case (js_get kvs ''events'', js_get kvs ''totalEvents'', js_get kvs ''returnedEvents'',
                 js_get kvs ''truncated'', js_get kvs ''searchId'', js_get kvs ''executionTimeMs'') of
             (JArr es, JNum tot, JNum ret, JBool tr, JStr sid, JNum ms) \<Rightarrow>
               if list_all (\<lambda>e. EventSchema_parse e \<noteq> None) es then
                 Option.bind (opt_string (js_get kvs ''error'')) (\<lambda>err.
                 Option.bind (opt_object (js_get kvs ''aggregations'')) (\<lambda>aggs.
                   Some \<lparr>events = List.map_filter EventSchema_parse es, totalEvents = tot,
                          returnedEvents = ret, truncated = tr, searchId = sid,
                          executionTimeMs = ms, error = err, aggregations = aggs\<rparr>))
               else None
           | _ \<Rightarrow> None)
      | _ \<Rightarrow> None)"

text \<open>The search result \<open>computeTrustForResult\<close> builds from a tool result (an object) and
  hands to \<open>computeTrust\<close>; \<open>None\<close> when the schema check throws.\<close>

definition toSearchResult :: "(string \<times> json) list \<Rightarrow> SplunkSearchResult option" where
  "toSearchResult resultObj =
     (let events = js_or (js_get resultObj ''events'') (JArr []);
          metadata = js_or (js_get resultObj ''metadata'') (JObj [])
      in SplunkSearchResultSchema_parse (JObj [
           (''events'', events),
           (''totalEvents'', js_or (js_prop metadata ''totalCount'') (js_length events)),
           (''returnedEvents'', js_length events),
           (''truncated'', js_or (js_prop metadata ''truncated'') (JBool False)),
           (''searchId'', js_or (js_prop metadata ''searchId'') (JStr ''unknown'')),
           (''executionTimeMs'', js_or (js_prop metadata ''executionTimeMs'') (JNum 0)),
           (''error'', JUndefined),
           (''aggregations'', JUndefined)]))"

text \<open>\<open>computeTrustForResult\<close>: every exception is caught and gives \<open>undefined\<close>
  (\<open>None\<close>).\<close>

definition computeTrustForResult :: "thresholds \<Rightarrow> (string \<Rightarrow> parse_outcome) \<Rightarrow> int
    \<Rightarrow> (string \<times> json) list \<Rightarrow> TrustMetadata option" where
  "computeTrustForResult cfg parseISO now resultObj =
     (case toSearchResult resultObj of
        None \<Rightarrow> None
      | Some searchResult \<Rightarrow> computeTrust cfg parseISO now searchResult)"




text \<open>Vocabulary and example backends for the statements about the client: the failure
  \<open>waitForJob\<close> throws on timeout; the time \<open>poll_time be t k\<close> of the loop test before the
  \<open>k\<close>-th status request, when \<open>waitForJob\<close> starts at \<open>t\<close> and the requests before it
  found the job running; a job that is not done within the timeout: every status request
  made before the timeout has elapsed succeeds and reports \<open>isDone = false\<close> (what the
  backend would answer later is left open); a backend whose job is done from the sixth
  status request on and which rejects the cancel request; a backend answering a \<open>stats\<close> search with one event row and one row that fails
  \<open>EventSchema\<close> (no \<open>_time\<close>, a multi-valued \<open>host\<close>); a backend holding five results of
  which two are fetched.\<close>

definition timed_out :: "nat \<Rightarrow> SplunkMCPError" where
  "timed_out timeout =
     SplunkAPIError (''Search job timed out after '' @ show_nat timeout @ '' seconds'') None True"

primrec poll_time :: "backend \<Rightarrow> nat \<Rightarrow> nat \<Rightarrow> nat" where
  "poll_time be t 0 = t"
| "poll_time be t (Suc k) = poll_time be t k + fst (job_status be k) + 500 + sleep_lag be k"

definition never_done_within :: "backend \<Rightarrow> nat \<Rightarrow> nat \<Rightarrow> bool" where
  "never_done_within be timeout t =
     (\<forall>k. poll_time be t k < t + timeout * 1000 \<longrightarrow>
          (\<exists>d st. job_status be k = (d, Inr st) \<and> \<not> isDone st))"

definition running :: SplunkJobStatus where
  "running = \<lparr>resultCount = 0, isDone = False, isFailed = False, messages = []\<rparr>"

definition finished :: "nat \<Rightarrow> SplunkJobStatus" where
  "finished n = \<lparr>resultCount = n, isDone = True, isFailed = False, messages = []\<rparr>"

definition late_backend :: backend where
  "late_backend =
     \<lparr>getClient = (\<lambda>t. None),
      create_job = (20, Inr (Some ''sid1'')),
      job_status = (\<lambda>k. (100, Inr (if k < 5 then running else finished 3))),
      sleep_lag = (\<lambda>k. 0),
      job_results = (30, Inr (Some [])),
      cancel_job = (50, Inl (SplunkAPIError ''Request failed with status code 404'' (Some 404) False))\<rparr>"

definition stats_backend :: backend where
  "stats_backend =
     \<lparr>getClient = (\<lambda>t. None),
      create_job = (20, Inr (Some ''sid2'')),
      job_status = (\<lambda>k. (100, Inr (finished 2))),
      sleep_lag = (\<lambda>k. 0),
      job_results = (30, Inr (Some [
        [(''_time'', JStr ''2024-01-01T00:00:00''), (''_raw'', JStr ''login ok''),
         (''host'', JStr ''web1'')],
        [(''user'', JStr ''bob''), (''host'', JArr [JStr ''web1'', JStr ''web2''])]])),
      cancel_job = (50, Inr ())\<rparr>"

definition capped_backend :: backend where
  "capped_backend =
     \<lparr>getClient = (\<lambda>t. None),
      create_job = (20, Inr (Some ''sid3'')),
      job_status = (\<lambda>k. (100, Inr (finished 5))),
      sleep_lag = (\<lambda>k. 0),
      job_results = (30, Inr (Some [
        [(''_time'', JStr ''2024-01-01T00:00:00''), (''_raw'', JStr ''a'')],
        [(''_time'', JStr ''2024-01-01T00:00:01''), (''_raw'', JStr ''b'')]])),
      cancel_job = (50, Inr ())\<rparr>"

text \<open>Vocabulary and examples for the statements about trust scoring: what \<open>parseISO\<close>
  returns on the strings of the examples (times in UTC); a result whose one event has the
  empty \<open>_time\<close> that \<open>parseEvents\<close> gives a \<open>stats\<close> row; the fraction of events whose raw
  text is empty or only white space, and of those whose raw text is empty; the integrity
  score as the specification words it; a search id with an execution time above 0 and under
  100 ms; the result built from a tool result without metadata, whose one event has an empty
  raw text; a tool result of \<open>splunk_search\<close>; the default thresholds.\<close>

definition example_parseISO :: "string \<Rightarrow> parse_outcome" where
  "example_parseISO s =
     (if s = ''2024-01-02T00:00:00'' then Parsed (ValidDate 1704153600000)
      else if s = ''2024-01-01T00:00:00'' then Parsed (ValidDate 1704067200000)
      else Parsed InvalidDate)"

definition no_time_result :: SplunkSearchResult where
  "no_time_result =
     \<lparr>events = [\<lparr>ev_time = [], ev_raw = ''count=3'', ev_indextime = None, ev_host = None,
                  ev_source = None, ev_sourcetype = None, ev_index = None,
                  ev_fields = [(''count'', JStr ''3'')]\<rparr>],
      totalEvents = 1, returnedEvents = 1, truncated = False, searchId = ''sid4'',
      executionTimeMs = 150, error = None, aggregations = None\<rparr>"

definition blank_fraction :: "SplunkSearchResult \<Rightarrow> real" where
  "blank_fraction result =
     (if events result = [] then 0
      else real (length (filter (\<lambda>e. \<forall>c\<in>set (ev_raw e). is_space c) (events result))) /
           real (length (events result)))"

definition empty_fraction :: "SplunkSearchResult \<Rightarrow> real" where
  "empty_fraction result =
     (if events result = [] then 0
      else real (length (filter (\<lambda>e. ev_raw e = []) (events result))) /
           real (length (events result)))"

definition integrity_as_claimed :: "SplunkSearchResult \<Rightarrow> real" where
  "integrity_as_claimed result =
     max 0 (min 1 (1 - (if has_error result then 5 / 10 else 0)
                     - (3 / 10) * empty_fraction result
                     + (if executionTimeMs result < 100 \<and> \<not> has_error result then 5 / 100 else 0)))"

definition fast_execution :: "SplunkSearchResult \<Rightarrow> bool" where
  "fast_execution result =
     (searchId result \<noteq> [] \<and> 0 < executionTimeMs result \<and> executionTimeMs result < 100)"

definition not_found_result :: SplunkSearchResult where
  "not_found_result =
     \<lparr>events = [\<lparr>ev_time = [], ev_raw = [], ev_indextime = None, ev_host = None,
                  ev_source = None, ev_sourcetype = None, ev_index = None, ev_fields = []\<rparr>],
      totalEvents = 1, returnedEvents = 1, truncated = False, searchId = ''unknown'',
      executionTimeMs = 0, error = None, aggregations = None\<rparr>"

definition example_tool_result :: "(string \<times> json) list" where
  "example_tool_result =
     [(''events'', JArr [JObj [(''_time'', JStr ''2024-01-01T00:00:00''),
                               (''_raw'', JStr ''login ok''), (''host'', JStr ''web1''),
                               (''fields'', JObj [])]]),
      (''metadata'', JObj [(''searchId'', JStr ''sid2''), (''totalCount'', JNum 1),
                           (''returnedCount'', JNum 1), (''truncated'', JBool False),
                           (''executionTimeMs'', JNum 150)])]"

definition example_thresholds :: thresholds where
  "example_thresholds = \<lparr>trustThresholdProceed = 7 / 10, trustThresholdCaution = 4 / 10\<rparr>"

section \<open>Properties of the scanner\<close>

lemma safe_scanQuery: "safe (scanQuery q) = (issues (scanQuery q) = [])"
  by (simp add: scanQuery_def Let_def)

lemma risk_scanQuery: "risk (scanQuery q) = determineRiskLevel (issues (scanQuery q))"
  by (simp add: scanQuery_def Let_def)

lemma spl_severity_not_low: "r \<in> set SPL_INJECTION_PATTERNS \<Longrightarrow> rule_severity r \<noteq> Low"
  by (auto simp: SPL_INJECTION_PATTERNS_def)

lemma scan_issue_cases:
  assumes "i \<in> set (issues (scanQuery q))"
  shows "(itype i = read_only_violation \<and> severity i = Critical \<and>
            (\<exists>r\<in>set READ_ONLY_VIOLATIONS. test (rule_pattern r) q \<and> description i = rule_description r)) \<or>
         (itype i = injection \<and> severity i \<noteq> Low) \<or>
         (itype i = prompt_injection \<and> severity i = High) \<or>
         (itype i = data_exfiltration \<and> severity i = Medium)"
  using assms by (auto simp: scanQuery_def Let_def dest: spl_severity_not_low)

lemma scan_severity_not_low: "i \<in> set (issues (scanQuery q)) \<Longrightarrow> severity i \<noteq> Low"
  using scan_issue_cases[of i q] by auto

lemma determineRiskLevel_attained:
  assumes ne: "is \<noteq> []"
  shows "\<exists>i\<in>set is. sev_rank (severity i) = risk_rank (determineRiskLevel is)"
proof (cases "\<exists>i\<in>set is. severity i = Critical")
  case True
  then obtain i where i: "i \<in> set is" "severity i = Critical" by blast
  have "determineRiskLevel is = RCritical"
    using ne i by (auto simp: determineRiskLevel_def list_ex_iff)
  with i show ?thesis by (intro bexI[of _ i]) simp_all
next
  case nc: False
  show ?thesis
  proof (cases "\<exists>i\<in>set is. severity i = High")
    case True
    then obtain i where i: "i \<in> set is" "severity i = High" by blast
    have "determineRiskLevel is = RHigh"
      using ne nc i by (auto simp: determineRiskLevel_def list_ex_iff)
    with i show ?thesis by (intro bexI[of _ i]) simp_all
  next
    case nh: False
    show ?thesis
    proof (cases "\<exists>i\<in>set is. severity i = Medium")
      case True
      then obtain i where i: "i \<in> set is" "severity i = Medium" by blast
      have "determineRiskLevel is = RMedium"
        using ne nc nh i by (auto simp: determineRiskLevel_def list_ex_iff)
      with i show ?thesis by (intro bexI[of _ i]) simp_all
    next
      case nm: False
      from ne obtain j where j: "j \<in> set is" by (cases "is") auto
      have lo: "severity j = Low" using j nc nh nm by (cases "severity j") auto
      have "determineRiskLevel is = RLow"
        using ne nc nh nm by (simp add: determineRiskLevel_def list_ex_iff)
      with j lo show ?thesis by (intro bexI[of _ j]) simp_all
    qed
  qed
qed

lemma determineRiskLevel_upper:
  "i \<in> set is \<Longrightarrow> sev_rank (severity i) \<le> risk_rank (determineRiskLevel is)"
  by (cases "severity i") (auto simp: determineRiskLevel_def list_ex_iff)

lemma determineRiskLevel_none: "(determineRiskLevel is = RNone) = (is = [])"
  by (auto simp: determineRiskLevel_def)

lemma no_match_no_issue:
  "\<forall>p\<in>set listed_patterns. \<not> test p q \<Longrightarrow> issues (scanQuery q) = []"
  by (simp add: scanQuery_def Let_def listed_patterns_def filter_empty_conv)

text \<open>
  Claim C2. For every input string, the verdict of \<open>scanQuery\<close> is safe exactly when its
  list of issues is empty; its risk is \<open>none\<close> exactly when the list is empty, and
  otherwise it is the greatest severity among the issues (it is the severity of some issue,
  and no issue has a greater one). A query that matches none of the listed patterns gets
  \<open>safe = true\<close>, \<open>risk = none\<close> and no issues.
\<close>

theorem scanQuery_verdict:
  "safe (scanQuery q) = (issues (scanQuery q) = []) \<and>
   (risk (scanQuery q) = RNone) = (issues (scanQuery q) = []) \<and>
   (issues (scanQuery q) \<noteq> [] \<longrightarrow>
      (\<exists>i\<in>set (issues (scanQuery q)). sev_rank (severity i) = risk_rank (risk (scanQuery q))) \<and>
      (\<forall>i\<in>set (issues (scanQuery q)). sev_rank (severity i) \<le> risk_rank (risk (scanQuery q)))) \<and>
   ((\<forall>p\<in>set listed_patterns. \<not> test p q) \<longrightarrow>
      scanQuery q = \<lparr>safe = True, risk = RNone, issues = []\<rparr>)"
proof -
  have a: "safe (scanQuery q) = (issues (scanQuery q) = [])" by (rule safe_scanQuery)
  have b: "(risk (scanQuery q) = RNone) = (issues (scanQuery q) = [])"
    by (simp add: risk_scanQuery determineRiskLevel_none)
  have c: "issues (scanQuery q) \<noteq> [] \<longrightarrow>
      (\<exists>i\<in>set (issues (scanQuery q)). sev_rank (severity i) = risk_rank (risk (scanQuery q))) \<and>
      (\<forall>i\<in>set (issues (scanQuery q)). sev_rank (severity i) \<le> risk_rank (risk (scanQuery q)))"
    using determineRiskLevel_attained[of "issues (scanQuery q)"]
          determineRiskLevel_upper[of _ "issues (scanQuery q)"]
    by (simp add: risk_scanQuery)
  have d: "(\<forall>p\<in>set listed_patterns. \<not> test p q) \<longrightarrow>
      scanQuery q = \<lparr>safe = True, risk = RNone, issues = []\<rparr>"
  proof
    assume h: "\<forall>p\<in>set listed_patterns. \<not> test p q"
    have e: "issues (scanQuery q) = []" using h by (rule no_match_no_issue)
    have "safe (scanQuery q)" using e a by simp
    moreover have "risk (scanQuery q) = RNone" using e b by simp
    ultimately show "scanQuery q = \<lparr>safe = True, risk = RNone, issues = []\<rparr>"
      using e by (cases "scanQuery q") simp
  qed
  from a b c d show ?thesis by blast
qed

text \<open>
  Claim C9. \<open>scanQuery\<close> never returns the risk \<open>low\<close>: every issue it reports has
  severity medium, high or critical, so an unsafe verdict has risk medium, high or
  critical.
\<close>

theorem scanQuery_never_low:
  "risk (scanQuery q) \<noteq> RLow \<and>
   (\<forall>i\<in>set (issues (scanQuery q)). severity i \<in> {Medium, High, Critical}) \<and>
   (\<not> safe (scanQuery q) \<longrightarrow> risk (scanQuery q) \<in> {RMedium, RHigh, RCritical})"
proof -
  have sev: "\<forall>i\<in>set (issues (scanQuery q)). severity i \<in> {Medium, High, Critical}"
  proof
    fix i assume "i \<in> set (issues (scanQuery q))"
    then have "severity i \<noteq> Low" by (rule scan_severity_not_low)
    then show "severity i \<in> {Medium, High, Critical}" by (cases "severity i") auto
  qed
  have nl: "risk (scanQuery q) \<noteq> RLow"
  proof
    assume l: "risk (scanQuery q) = RLow"
    then have ne: "issues (scanQuery q) \<noteq> []"
      by (auto simp: risk_scanQuery determineRiskLevel_def)
    from determineRiskLevel_attained[OF ne] l
    obtain i where "i \<in> set (issues (scanQuery q))" "sev_rank (severity i) = 1"
      by (auto simp: risk_scanQuery)
    then show False using sev by (cases "severity i") auto
  qed
  have "\<not> safe (scanQuery q) \<longrightarrow> risk (scanQuery q) \<in> {RMedium, RHigh, RCritical}"
  proof
    assume "\<not> safe (scanQuery q)"
    then have "risk (scanQuery q) \<noteq> RNone"
      by (simp add: safe_scanQuery risk_scanQuery determineRiskLevel_none)
    with nl show "risk (scanQuery q) \<in> {RMedium, RHigh, RCritical}"
      by (cases "risk (scanQuery q)") auto
  qed
  with sev nl show ?thesis by blast
qed


lemma issues_scanQuery_empty:
  "(issues (scanQuery q) = []) = (\<forall>p\<in>set listed_patterns. \<not> test p q)"
  by (auto simp: scanQuery_def Let_def listed_patterns_def filter_empty_conv)

lemma read_only_issue:
  "(\<exists>i\<in>set (issues (scanQuery q)). itype i = read_only_violation) =
   (\<exists>r\<in>set READ_ONLY_VIOLATIONS. test (rule_pattern r) q)"
proof
  assume "\<exists>i\<in>set (issues (scanQuery q)). itype i = read_only_violation"
  then obtain i where "i \<in> set (issues (scanQuery q))" "itype i = read_only_violation" by blast
  then show "\<exists>r\<in>set READ_ONLY_VIOLATIONS. test (rule_pattern r) q"
    using scan_issue_cases[of i q] by auto
next
  assume "\<exists>r\<in>set READ_ONLY_VIOLATIONS. test (rule_pattern r) q"
  then obtain r where r: "r \<in> set READ_ONLY_VIOLATIONS" "test (rule_pattern r) q" by blast
  let ?i = "\<lparr>itype = read_only_violation, severity = Critical,
             description = rule_description r, pattern = source (rule_pattern r)\<rparr>"
  have "?i \<in> set (issues (scanQuery q))"
    using r by (simp add: scanQuery_def Let_def)
  then show "\<exists>i\<in>set (issues (scanQuery q)). itype i = read_only_violation"
    by (intro bexI[of _ ?i]) simp_all
qed




lemma test_delete: "test (pipe_cmd ''delete'') ''| delete''"
  by code_simp

lemma delete_rule:
  "\<lparr>rule_pattern = pipe_cmd ''delete'', rule_description = ''DELETE command detected''\<rparr>
     \<in> set READ_ONLY_VIOLATIONS"
  by (simp add: READ_ONLY_VIOLATIONS_def)


theorem scanQuery_verdict_witness:
  "scanQuery ''index=main error'' = \<lparr>safe = True, risk = RNone, issues = []\<rparr> \<and>
   issues (scanQuery ''| delete'') \<noteq> [] \<and>
   \<not> safe (scanQuery ''| delete'') \<and>
   risk (scanQuery ''| delete'') \<noteq> RNone"
proof -
  have h: "\<forall>p\<in>set listed_patterns. \<not> test p ''index=main error''" by code_simp
  have "\<exists>r\<in>set READ_ONLY_VIOLATIONS. test (rule_pattern r) ''| delete''"
    using test_delete delete_rule by force
  then have ne: "issues (scanQuery ''| delete'') \<noteq> []"
    using read_only_issue[of "''| delete''"] by auto
  show ?thesis
    using h ne scanQuery_verdict[of "''index=main error''"] scanQuery_verdict[of "''| delete''"]
    by simp
qed

theorem scanQuery_never_low_witness:
  "\<not> safe (scanQuery ''| delete'') \<and>
   risk (scanQuery ''| delete'') \<in> {RMedium, RHigh, RCritical} \<and>
   risk (scanQuery ''| delete'') \<noteq> RLow"
proof -
  have "\<exists>r\<in>set READ_ONLY_VIOLATIONS. test (rule_pattern r) ''| delete''"
    using test_delete delete_rule by force
  then have ne: "issues (scanQuery ''| delete'') \<noteq> []"
    using read_only_issue[of "''| delete''"] by auto
  then have "\<not> safe (scanQuery ''| delete'')" by (simp add: safe_scanQuery)
  then show ?thesis using scanQuery_never_low[of "''| delete''"] by simp
qed

subsection \<open>Case-insensitive matching\<close>

























subsection \<open>Parameter scanning\<close>














section \<open>Properties of the client\<close>

declare waitForJob_loop.simps [simp del]

lemma waitForJob_loop_cancel:
  "startTime \<le> now \<Longrightarrow> cancel_sent (waitForJob_loop be timeout startTime now k) \<Longrightarrow>
   outcome (waitForJob_loop be timeout startTime now k) = Inl (timed_out timeout) \<and>
   startTime + timeout * 1000 \<le> finished_at (waitForJob_loop be timeout startTime now k)"
proof (induction be timeout startTime now k rule: waitForJob_loop.induct)
  case (1 be timeout startTime now k)
  show ?case
  proof (cases "now - startTime < timeout * 1000")
    case False
    then show ?thesis using 1(2)
      by (subst waitForJob_loop.simps, subst waitForJob_loop.simps) (simp add: timed_out_def)
  next
    case True
    obtain d res where js: "job_status be k = (d, res)" by (cases "job_status be k")
    show ?thesis
    proof (cases res)
      case (Inl e)
      then show ?thesis using 1(3) True js
        by (subst (asm) waitForJob_loop.simps) simp
    next
      case (Inr st)
      show ?thesis
      proof (cases "isDone st")
        case True
        then show ?thesis using 1(3) \<open>now - startTime < timeout * 1000\<close> js Inr
          by (subst (asm) waitForJob_loop.simps) (simp split: if_splits)
      next
        case False
        have eq: "waitForJob_loop be timeout startTime now k =
                  waitForJob_loop be timeout startTime (now + d + 500 + sleep_lag be k) (Suc k)"
          using True js Inr False by (subst waitForJob_loop.simps) simp
        have "startTime \<le> now + d + 500 + sleep_lag be k" using 1(2) by simp
        then show ?thesis
          using 1(1)[OF True js[symmetric] Inr False] 1(3) unfolding eq by simp
      qed
    qed
  qed
qed

lemma poll_time_lower: "t + 500 * k \<le> poll_time be t k"
  by (induction k) simp_all

lemma waitForJob_loop_never_done:
  "now = poll_time be startTime k \<Longrightarrow> never_done_within be timeout startTime \<Longrightarrow>
   cancel_sent (waitForJob_loop be timeout startTime now k)"
proof (induction be timeout startTime now k rule: waitForJob_loop.induct)
  case (1 be timeout startTime now k)
  show ?case
  proof (cases "now - startTime < timeout * 1000")
    case False
    then show ?thesis by (subst waitForJob_loop.simps) simp
  next
    case True
    have "startTime \<le> now" using 1(2) poll_time_lower[of startTime k be] by simp
    with True have "poll_time be startTime k < startTime + timeout * 1000"
      using 1(2) by simp
    with 1(3) obtain d st where js: "job_status be k = (d, Inr st)" and nd: "\<not> isDone st"
      unfolding never_done_within_def by blast
    have eq: "waitForJob_loop be timeout startTime now k =
              waitForJob_loop be timeout startTime (now + d + 500 + sleep_lag be k) (Suc k)"
      using True js nd by (subst waitForJob_loop.simps) simp
    have nx: "now + d + 500 + sleep_lag be k = poll_time be startTime (Suc k)"
      using 1(2) js by simp
    show ?thesis
      unfolding eq using 1(1)[OF True js[symmetric] refl nd nx 1(3)] .
  qed
qed

lemma never_done_within_bounded:
  assumes "\<forall>k<2 * timeout. \<exists>d st. job_status be k = (d, Inr st) \<and> \<not> isDone st"
  shows "never_done_within be timeout t"
  unfolding never_done_within_def
proof (intro allI impI)
  fix k
  assume "poll_time be t k < t + timeout * 1000"
  with poll_time_lower[of t k be] have "k < 2 * timeout" by simp
  with assms show "\<exists>d st. job_status be k = (d, Inr st) \<and> \<not> isDone st" by blast
qed

lemma waitForJob_loop_cancel_irrelevant:
  "outcome (waitForJob_loop (be\<lparr>cancel_job := c\<rparr>) timeout startTime now k) =
   outcome (waitForJob_loop be timeout startTime now k)"
proof (induction be timeout startTime now k rule: waitForJob_loop.induct)
  case (1 be timeout startTime now k)
  show ?case
  proof (cases "now - startTime < timeout * 1000")
    case False
    then show ?thesis
      by (subst waitForJob_loop.simps, subst (2) waitForJob_loop.simps) simp
  next
    case True
    obtain d res where js: "job_status be k = (d, res)" by (cases "job_status be k")
    show ?thesis
    proof (cases res)
      case (Inl e)
      then show ?thesis using True js
        by (subst waitForJob_loop.simps, subst (2) waitForJob_loop.simps) simp
    next
      case (Inr st)
      show ?thesis
      proof (cases "isDone st")
        case True
        then show ?thesis using \<open>now - startTime < timeout * 1000\<close> js Inr
          by (subst waitForJob_loop.simps, subst (2) waitForJob_loop.simps) simp
      next
        case False
        show ?thesis
          using 1(1)[OF True js[symmetric] Inr False] True js Inr False
          by (subst waitForJob_loop.simps, subst (2) waitForJob_loop.simps) simp
      qed
    qed
  qed
qed

text \<open>
  Claim C7. When no status request made within the configured timeout reports \<open>isDone\<close>
  (each succeeds and finds the job running, whatever the job does later), \<open>waitForJob\<close>
  sends the cancel request and then throws the timed-out failure, a \<open>SplunkAPIError\<close>
  with \<open>isRetryable = true\<close>, whatever the cancel request answers. And whenever
  \<open>waitForJob\<close> gets to the cancel request and the timed-out failure, at least the
  configured timeout has passed since it started.
\<close>

theorem waitForJob_timeout:
  "(getClient be t = None \<and> never_done_within be timeout t \<longrightarrow>
      outcome (waitForJob be timeout t) = Inl (timed_out timeout) \<and>
      isRetryable (timed_out timeout) \<and>
      name (timed_out timeout) = ''SplunkAPIError'' \<and>
      cancel_sent (waitForJob be timeout t) \<and>
      outcome (waitForJob (be\<lparr>cancel_job := c\<rparr>) timeout t) = Inl (timed_out timeout)) \<and>
   (cancel_sent (waitForJob be timeout t) \<longrightarrow>
      outcome (waitForJob be timeout t) = Inl (timed_out timeout) \<and>
      t + timeout * 1000 \<le> finished_at (waitForJob be timeout t))"
proof -
  have second: "cancel_sent (waitForJob be timeout t) \<longrightarrow>
      outcome (waitForJob be timeout t) = Inl (timed_out timeout) \<and>
      t + timeout * 1000 \<le> finished_at (waitForJob be timeout t)"
  proof (cases "getClient be t")
    case None
    then show ?thesis
      using waitForJob_loop_cancel[where be=be and timeout=timeout and startTime=t and now=t and k=0] by (simp add: waitForJob_def)
  next
    case (Some e)
    then show ?thesis by (simp add: waitForJob_def)
  qed
  have first: "getClient be t = None \<and> never_done_within be timeout t \<longrightarrow>
      outcome (waitForJob be timeout t) = Inl (timed_out timeout) \<and>
      isRetryable (timed_out timeout) \<and>
      name (timed_out timeout) = ''SplunkAPIError'' \<and>
      cancel_sent (waitForJob be timeout t) \<and>
      outcome (waitForJob (be\<lparr>cancel_job := c\<rparr>) timeout t) = Inl (timed_out timeout)"
  proof
    assume h: "getClient be t = None \<and> never_done_within be timeout t"
    then have cs: "cancel_sent (waitForJob be timeout t)"
      using waitForJob_loop_never_done[where be=be and timeout=timeout and startTime=t
          and now=t and k=0]
      by (simp add: waitForJob_def)
    with second have oc: "outcome (waitForJob be timeout t) = Inl (timed_out timeout)" by blast
    have "outcome (waitForJob (be\<lparr>cancel_job := c\<rparr>) timeout t) = outcome (waitForJob be timeout t)"
      using h waitForJob_loop_cancel_irrelevant[where be=be and c=c and timeout=timeout and startTime=t and now=t and k=0]
      by (simp add: waitForJob_def)
    with oc cs show "outcome (waitForJob be timeout t) = Inl (timed_out timeout) \<and>
      isRetryable (timed_out timeout) \<and>
      name (timed_out timeout) = ''SplunkAPIError'' \<and>
      cancel_sent (waitForJob be timeout t) \<and>
      outcome (waitForJob (be\<lparr>cancel_job := c\<rparr>) timeout t) = Inl (timed_out timeout)"
      by (simp add: timed_out_def SplunkAPIError_def)
  qed
  from first second show ?thesis by (rule conjI)
qed

lemma waitForJob_loop_code [code]:
  "waitForJob_loop be timeout startTime now k =
     (if now - startTime < timeout * 1000 then
        (if isl (snd (job_status be k)) then
           \<lparr>outcome = Inl (projl (snd (job_status be k))),
            finished_at = now + fst (job_status be k), polls = Suc k, cancel_sent = False\<rparr>
         else if isDone (projr (snd (job_status be k))) then
           (if isFailed (projr (snd (job_status be k)))
            then \<lparr>outcome = Inl (job_failure (projr (snd (job_status be k)))),
                   finished_at = now + fst (job_status be k), polls = Suc k,
                   cancel_sent = False\<rparr>
            else \<lparr>outcome = Inr (), finished_at = now + fst (job_status be k), polls = Suc k,
                   cancel_sent = False\<rparr>)
         else waitForJob_loop be timeout startTime
                (now + fst (job_status be k) + 500 + sleep_lag be k) (Suc k))
      else
        \<lparr>outcome = Inl (SplunkAPIError (''Search job timed out after '' @ show_nat timeout @
                                         '' seconds'') None True),
          finished_at = now + fst (cancel_job be), polls = k, cancel_sent = True\<rparr>)"
  by (subst waitForJob_loop.simps) (auto split: prod.splits sum.splits)

lemma late_never_done: "never_done_within late_backend 1 0"
  by (rule never_done_within_bounded) (simp add: late_backend_def running_def)

lemma late_done_later: "isDone (projr (snd (job_status late_backend 5)))"
  by (simp add: late_backend_def finished_def)

lemma late_run:
  "waitForJob late_backend 1 0 =
     \<lparr>outcome = Inl (timed_out 1), finished_at = 1250, polls = 2, cancel_sent = True\<rparr>"
  by code_simp

theorem waitForJob_timeout_witness:
  "getClient late_backend 0 = None \<and> never_done_within late_backend 1 0 \<and>
   isDone (projr (snd (job_status late_backend 5))) \<and>
   outcome (waitForJob late_backend 1 0) = Inl (timed_out 1) \<and>
   message (timed_out 1) = ''Search job timed out after 1 seconds'' \<and>
   isRetryable (timed_out 1) \<and>
   cancel_sent (waitForJob late_backend 1 0) \<and>
   finished_at (waitForJob late_backend 1 0) = 1250 \<and>
   (0::nat) + 1 * 1000 \<le> finished_at (waitForJob late_backend 1 0)"
proof -
  have g: "getClient late_backend 0 = None" by (simp add: late_backend_def)
  have m: "message (timed_out 1) = ''Search job timed out after 1 seconds''" by code_simp
  show ?thesis
    using g m late_never_done late_done_later late_run waitForJob_timeout[of late_backend 0 1]
    by simp
qed

text \<open>
  Claim C3, as the code has it. In every \<open>SearchResult\<close> that \<open>search\<close> or
  \<open>runSavedSearch\<close> returns, \<open>truncated\<close> equals \<open>totalCount > maxResults\<close>, the cap
  asked for (\<open>settings.maxResults\<close> for \<open>runSavedSearch\<close>); so it equals
  \<open>totalCount > returnedCount\<close> when the result holds \<open>min(totalCount, maxResults)\<close>
  events.
\<close>

theorem search_truncated:
  "(search be t maxResults timeout = Inr r \<longrightarrow>
      sr_truncated r = (sr_totalCount r > maxResults) \<and>
      (returnedCount r = min (sr_totalCount r) maxResults \<longrightarrow>
         sr_truncated r = (sr_totalCount r > returnedCount r))) \<and>
   (runSavedSearch be t settings_maxResults settings_searchTimeout = Inr r' \<longrightarrow>
      sr_truncated r' = (sr_totalCount r' > settings_maxResults) \<and>
      (returnedCount r' = min (sr_totalCount r') settings_maxResults \<longrightarrow>
         sr_truncated r' = (sr_totalCount r' > returnedCount r')))"
proof -
  have a: "search be t maxResults timeout = Inr r \<longrightarrow>
      sr_truncated r = (sr_totalCount r > maxResults)"
    by (auto simp: search_def Let_def split: option.splits sum.splits prod.splits if_splits)
  have b: "runSavedSearch be t settings_maxResults settings_searchTimeout = Inr r' \<longrightarrow>
      sr_truncated r' = (sr_totalCount r' > settings_maxResults)"
    by (auto simp: runSavedSearch_def Let_def
          split: option.splits sum.splits prod.splits if_splits)
  from a b show ?thesis by auto
qed

lemma stats_search:
  "search stats_backend 0 10 2 =
     Inr \<lparr>sr_events = [\<lparr>ev_time = ''2024-01-01T00:00:00'', ev_raw = ''login ok'',
                        ev_indextime = None, ev_host = Some ''web1'', ev_source = None,
                        ev_sourcetype = None, ev_index = None, ev_fields = []\<rparr>],
          sr_totalCount = 2, sr_searchId = ''sid2'', sr_executionTimeMs = 150,
          sr_truncated = False\<rparr>"
  by code_simp

text \<open>
  Claim C3 as stated fails: the job reports two results, one of the two records fetched is
  dropped by \<open>parseEvents\<close>, and the result has \<open>totalCount = 2\<close>, one event and
  \<open>truncated = false\<close>.
\<close>

theorem search_truncated_counterexample:
  "\<exists>r. search stats_backend 0 10 2 = Inr r \<and> sr_totalCount r = 2 \<and> returnedCount r = 1 \<and>
       \<not> sr_truncated r \<and>
       sr_truncated r \<noteq> (sr_totalCount r > returnedCount r)"
  by (simp add: stats_search returnedCount_def)

lemma capped_search:
  "search capped_backend 0 2 2 =
     Inr \<lparr>sr_events = [\<lparr>ev_time = ''2024-01-01T00:00:00'', ev_raw = ''a'',
                        ev_indextime = None, ev_host = None, ev_source = None,
                        ev_sourcetype = None, ev_index = None, ev_fields = []\<rparr>,
                       \<lparr>ev_time = ''2024-01-01T00:00:01'', ev_raw = ''b'',
                        ev_indextime = None, ev_host = None, ev_source = None,
                        ev_sourcetype = None, ev_index = None, ev_fields = []\<rparr>],
          sr_totalCount = 5, sr_searchId = ''sid3'', sr_executionTimeMs = 150,
          sr_truncated = True\<rparr>"
  by code_simp

lemma capped_run:
  "runSavedSearch capped_backend 0 2 2 =
     Inr \<lparr>sr_events = [\<lparr>ev_time = ''2024-01-01T00:00:00'', ev_raw = ''a'',
                        ev_indextime = None, ev_host = None, ev_source = None,
                        ev_sourcetype = None, ev_index = None, ev_fields = []\<rparr>,
                       \<lparr>ev_time = ''2024-01-01T00:00:01'', ev_raw = ''b'',
                        ev_indextime = None, ev_host = None, ev_source = None,
                        ev_sourcetype = None, ev_index = None, ev_fields = []\<rparr>],
          sr_totalCount = 5, sr_searchId = ''sid3'', sr_executionTimeMs = 250,
          sr_truncated = True\<rparr>"
  by code_simp

theorem search_truncated_witness:
  "(\<exists>r r'. search capped_backend 0 2 2 = Inr r \<and> runSavedSearch capped_backend 0 2 2 = Inr r' \<and>
        sr_totalCount r = 5 \<and> returnedCount r = 2 \<and>
        returnedCount r = min (sr_totalCount r) 2 \<and>
        sr_truncated r \<and> sr_truncated r = (sr_totalCount r > 2) \<and>
        sr_truncated r = (sr_totalCount r > returnedCount r) \<and>
        sr_totalCount r' = 5 \<and> returnedCount r' = 2 \<and>
        sr_truncated r' \<and> sr_truncated r' = (sr_totalCount r' > returnedCount r'))"
proof -
  obtain r where r: "search capped_backend 0 2 2 = Inr r" "sr_totalCount r = 5"
      "returnedCount r = 2"
    using capped_search by (simp add: returnedCount_def)
  obtain r' where r': "runSavedSearch capped_backend 0 2 2 = Inr r'" "sr_totalCount r' = 5"
      "returnedCount r' = 2"
    using capped_run by (simp add: returnedCount_def)
  note inst = search_truncated[of capped_backend 0 2 2 r 2 2 r']
  from inst r r' have "sr_truncated r = (sr_totalCount r > 2)"
    and "sr_truncated r' = (sr_totalCount r' > 2)" by blast+
  with r r' show ?thesis by simp
qed

section \<open>Properties of the trust scorer\<close>

subsection \<open>Freshness\<close>

lemma freshness_loop_invalid:
  "\<forall>e\<in>set es. parseISO (timeStr_of e) = Parsed InvalidDate \<Longrightarrow>
   freshness_loop parseISO now es (r, t) = (r, t + length es)"
  by (induction es arbitrary: r t) (simp_all add: differenceInHours_def)

lemma freshness_loop_throws:
  "\<forall>e\<in>set es. parseISO (timeStr_of e) = ParseThrows \<Longrightarrow>
   freshness_loop parseISO now es (r, t) = (r, t)"
  by (induction es arbitrary: r t) simp_all

lemma freshness_loop_bound:
  "freshness_loop parseISO now es (r, t) = (r', t') \<Longrightarrow> r \<le> t \<Longrightarrow> r' \<le> t'"
proof (induction es arbitrary: r t)
  case Nil then show ?case by simp
next
  case (Cons e es)
  show ?case
  proof (cases "parseISO (timeStr_of e)")
    case ParseThrows
    then show ?thesis using Cons by simp
  next
    case (Parsed d)
    then show ?thesis using Cons.prems Cons.IH[of "if (case differenceInHours now d of None \<Rightarrow> False | Some h \<Rightarrow> h \<le> 24) then r + 1 else r" "t + 1"]
      by (simp add: Let_def split: if_splits)
  qed
qed

subsection \<open>Integrity\<close>

lemma all_dropWhile: "(\<forall>x\<in>set (dropWhile P s). P x) = (\<forall>x\<in>set s. P x)"
  by (induction s) auto

lemma trim_empty: "(trim s = []) = (\<forall>c\<in>set s. is_space c)"
proof -
  have "(trim s = []) = (\<forall>x\<in>set (dropWhile is_space s). is_space x)"
    by (simp add: trim_def dropWhile_eq_Nil_conv)
  then show ?thesis by (simp add: all_dropWhile)
qed

lemma blank_filter:
  "filter (\<lambda>event. ev_raw event = [] \<or> length (trim (ev_raw event)) = 0) es =
   filter (\<lambda>e. \<forall>c\<in>set (ev_raw e). is_space c) es"
  by (rule filter_cong[OF refl]) (auto simp: trim_empty)

lemma integrity_penalty:
  "(if length (events result) > 0 then
      (let invalidCount =
             length (filter (\<lambda>event. ev_raw event = [] \<or> length (trim (ev_raw event)) = 0)
                       (events result));
           invalidRatio = real invalidCount / real (length (events result))
       in s - invalidRatio * (3 / 10))
    else s) = s - (3 / 10) * blank_fraction result"
  unfolding blank_filter by (simp add: blank_fraction_def Let_def)

subsection \<open>The schema checks pass, in real arithmetic\<close>

lemma computeAuthority_range: "unit_interval (computeAuthority result)"
  by (simp add: computeAuthority_def unit_interval_def Let_def)

lemma computeFreshness_range: "unit_interval (computeFreshness parseISO now result)"
proof -
  obtain r t where l: "freshness_loop parseISO now (events result) (0, 0) = (r, t)"
    by (cases "freshness_loop parseISO now (events result) (0, 0)")
  then have "r \<le> t" using freshness_loop_bound[of parseISO now "events result" 0 0 r t] by simp
  then show ?thesis using l
    by (simp add: computeFreshness_def unit_interval_def)
qed

lemma completeness_loop_bound:
  "completeness_loop es (c, t, m) = (c', t', m') \<Longrightarrow> c \<le> t \<Longrightarrow> c' \<le> t'"
proof (induction es arbitrary: c t m)
  case Nil then show ?case by simp
next
  case (Cons e es)
  from Cons.prems show ?case
    by (simp add: Let_def split: if_splits) (drule Cons.IH, simp, simp)+
qed

lemma computeCompleteness_range: "unit_interval (fst (computeCompletenessWithDetails result))"
proof -
  obtain c t m where l: "completeness_loop (events result) (0, 0, []) = (c, t, m)"
    by (cases "completeness_loop (events result) (0, 0, [])") auto
  then have "c \<le> t" using completeness_loop_bound[of "events result" 0 0 "[]" c t m] by simp
  then show ?thesis using l
    by (simp add: computeCompletenessWithDetails_def unit_interval_def)
qed

lemma computeCoherence_range: "unit_interval (computeCoherence result)"
  by (simp add: computeCoherence_def unit_interval_def Let_def)

lemma computeIntegrity_range: "unit_interval (computeIntegrity result)"
  by (simp add: computeIntegrity_def unit_interval_def Let_def)

lemma computeTrackRecord_range: "unit_interval (computeTrackRecord result)"
  by (simp add: computeTrackRecord_def unit_interval_def Let_def)

lemma computeDimensions_total:
  "computeDimensions parseISO now result =
     Some (\<lparr>authority = computeAuthority result,
            freshness = computeFreshness parseISO now result,
            completeness = fst (computeCompletenessWithDetails result),
            coherence = computeCoherence result,
            integrity = computeIntegrity result,
            trackRecord = computeTrackRecord result,
            corroboration = None\<rparr>, snd (computeCompletenessWithDetails result))"
  by (simp add: computeDimensions_def TrustDimensionSchema_parse_def Let_def
        computeCorroboration_def computeAuthority_range computeFreshness_range
        computeCompleteness_range computeCoherence_range computeIntegrity_range
        computeTrackRecord_range)

lemma composite_range:
  fixes a f c h i t :: real
  assumes "unit_interval a" "unit_interval f" "unit_interval c" "unit_interval h"
    "unit_interval i" "unit_interval t"
  shows "unit_interval (a * (2 / 10) + f * (2 / 10) + c * (2 / 10) + h * (15 / 100) +
                        i * (15 / 100) + t * (1 / 10))"
  using assms unfolding unit_interval_def by auto

lemma computeTrust_total:
  "\<exists>tm. computeTrust cfg parseISO now result = Some tm \<and>
        authority (dimensions tm) = computeAuthority result \<and>
        freshness (dimensions tm) = computeFreshness parseISO now result \<and>
        integrity (dimensions tm) = computeIntegrity result \<and>
        trustFactors tm =
          generateFactors result (dimensions tm) (snd (computeCompletenessWithDetails result))"
  using composite_range[OF computeAuthority_range[of result]
      computeFreshness_range[of parseISO now result] computeCompleteness_range[of result]
      computeCoherence_range[of result] computeIntegrity_range[of result]
      computeTrackRecord_range[of result]]
  by (simp add: computeTrust_def computeDimensions_total Let_def)

lemma computeFreshness_all_throw:
  "\<forall>e\<in>set (events result). parseISO (timeStr_of e) = ParseThrows \<Longrightarrow>
   computeFreshness parseISO now result = 1 / 2"
  by (simp add: computeFreshness_def freshness_loop_throws)

text \<open>
  Claim C5, on the code: when the result has events and \<open>parseISO\<close> returns \<open>Invalid Date\<close>
  for the timestamp of each of them, as date-fns does for a string it cannot parse, the
  freshness that \<open>computeTrust\<close> reports is 0 and not 0.5: no exception reaches the
  \<open>catch\<close> block, every event is counted in \<open>totalCount\<close>, and none is recent.
\<close>

theorem computeFreshness_invalid_dates:
  "events result \<noteq> [] \<and>
   (\<forall>e\<in>set (events result). parseISO (timeStr_of e) = Parsed InvalidDate) \<longrightarrow>
   computeFreshness parseISO now result = 0 \<and>
   (\<exists>tm. computeTrust cfg parseISO now result = Some tm \<and> freshness (dimensions tm) = 0)"
proof
  assume h: "events result \<noteq> [] \<and>
   (\<forall>e\<in>set (events result). parseISO (timeStr_of e) = Parsed InvalidDate)"
  then have z: "computeFreshness parseISO now result = 0"
    by (simp add: computeFreshness_def freshness_loop_invalid)
  with computeTrust_total[of cfg parseISO now result]
  show "computeFreshness parseISO now result = 0 \<and>
   (\<exists>tm. computeTrust cfg parseISO now result = Some tm \<and> freshness (dimensions tm) = 0)"
    by auto
qed

theorem computeFreshness_invalid_dates_witness:
  "events no_time_result \<noteq> [] \<and>
   map ev_time (events no_time_result) = [''''] \<and>
   example_parseISO '''' = Parsed InvalidDate \<and>
   computeFreshness example_parseISO 1704153600000 no_time_result = 0 \<and>
   (\<exists>tm. computeTrust example_thresholds example_parseISO 1704153600000 no_time_result = Some tm \<and>
         freshness (dimensions tm) = 0)"
proof -
  have a: "events no_time_result \<noteq> []" by (simp add: no_time_result_def)
  have b: "\<forall>e\<in>set (events no_time_result). example_parseISO (timeStr_of e) = Parsed InvalidDate"
    by (simp add: no_time_result_def timeStr_of_def example_parseISO_def)
  show ?thesis
    using a b computeFreshness_invalid_dates[of no_time_result example_parseISO 1704153600000
        example_thresholds]
    by (simp add: no_time_result_def example_parseISO_def)
qed

lemma computeTrust_integrity:
  "computeTrust cfg parseISO now result = Some tm \<Longrightarrow>
   integrity (dimensions tm) = computeIntegrity result"
  by (auto simp: computeTrust_def computeDimensions_def TrustDimensionSchema_parse_def Let_def
        split: option.splits if_splits prod.splits)

text \<open>
  Claim C6, as the code has it. For a result that does not both carry an error and have a
  search id with an execution time above 0 and under 100 ms, the integrity that
  \<open>computeTrust\<close> reports is 1.0, less 0.5 if the result carries an error, less 0.3 times
  the fraction of events whose raw text is empty or only white space, plus 0.05 if the
  result carries no error, has a search id and an execution time above 0 and under 100 ms,
  clamped to \<open>[0,1]\<close>. That is the value of \<open>computeIntegrity\<close>, and the integrity dimension
  of the metadata whenever \<open>computeTrust\<close> returns one.
\<close>

theorem computeIntegrity_value:
  "\<not> (has_error result \<and> fast_execution result) \<longrightarrow>
   computeIntegrity result =
     max 0 (min 1 (1 - (if has_error result then 5 / 10 else 0)
                     - (3 / 10) * blank_fraction result
                     + (if fast_execution result \<and> \<not> has_error result then 5 / 100 else 0))) \<and>
   (computeTrust cfg parseISO now result = Some tm \<longrightarrow>
      integrity (dimensions tm) = computeIntegrity result)"
proof
  assume h: "\<not> (has_error result \<and> fast_execution result)"
  have "computeIntegrity result =
      (let score = 1;
           score = (if has_error result then score - 5 / 10 else score);
           score = score - (3 / 10) * blank_fraction result;
           score =
             (if searchId result \<noteq> [] \<and> executionTimeMs result > 0 then
                (if executionTimeMs result < 100 then score + 5 / 100 else score)
              else score)
       in max 0 (min 1 score))"
    unfolding computeIntegrity_def integrity_penalty[symmetric] by (simp add: Let_def)
  then have "computeIntegrity result =
     max 0 (min 1 (1 - (if has_error result then 5 / 10 else 0)
                     - (3 / 10) * blank_fraction result
                     + (if fast_execution result \<and> \<not> has_error result then 5 / 100 else 0)))"
    using h by (auto simp: Let_def fast_execution_def)
  moreover have "computeTrust cfg parseISO now result = Some tm \<longrightarrow>
      integrity (dimensions tm) = computeIntegrity result"
    using computeTrust_integrity[of cfg parseISO now result tm] by blast
  ultimately show "computeIntegrity result =
     max 0 (min 1 (1 - (if has_error result then 5 / 10 else 0)
                     - (3 / 10) * blank_fraction result
                     + (if fast_execution result \<and> \<not> has_error result then 5 / 100 else 0))) \<and>
   (computeTrust cfg parseISO now result = Some tm \<longrightarrow>
      integrity (dimensions tm) = computeIntegrity result)"
    by (rule conjI)
qed

text \<open>
  Claim C6 as stated fails: with no error, an execution time of 0 ms and one event whose
  raw text is empty, the claim gives \<open>1.0 - 0.3 + 0.05 = 0.75\<close>, and the code gives 0.7,
  since it adds 0.05 only when the execution time is above 0.
\<close>

theorem computeIntegrity_counterexample:
  "\<not> has_error not_found_result \<and> executionTimeMs not_found_result < 100 \<and>
   computeIntegrity not_found_result = 7 / 10 \<and>
   integrity_as_claimed not_found_result = 3 / 4 \<and>
   computeIntegrity not_found_result \<noteq> integrity_as_claimed not_found_result"
  by (simp add: computeIntegrity_def integrity_as_claimed_def empty_fraction_def
        not_found_result_def has_error_def Let_def)

theorem computeIntegrity_value_witness:
  "\<not> has_error not_found_result \<and> \<not> fast_execution not_found_result \<and>
   blank_fraction not_found_result = 1 \<and>
   computeIntegrity not_found_result = 7 / 10 \<and>
   (\<exists>tm. computeTrust example_thresholds example_parseISO 1704153600000 not_found_result = Some tm \<and>
         integrity (dimensions tm) = 7 / 10)"
proof -
  have a: "\<not> has_error not_found_result" by (simp add: has_error_def not_found_result_def)
  have b: "\<not> fast_execution not_found_result"
    by (simp add: fast_execution_def not_found_result_def)
  have c: "blank_fraction not_found_result = 1"
    by (simp add: blank_fraction_def not_found_result_def)
  obtain tm where tm: "computeTrust example_thresholds example_parseISO 1704153600000
      not_found_result = Some tm"
    using computeTrust_total[of example_thresholds example_parseISO 1704153600000
        not_found_result]
    by blast
  from a b computeIntegrity_value[of not_found_result example_thresholds example_parseISO
      1704153600000 tm]
  have v: "computeIntegrity not_found_result =
     max 0 (min 1 (1 - (if has_error not_found_result then 5 / 10 else 0)
                     - (3 / 10) * blank_fraction not_found_result
                     + (if fast_execution not_found_result \<and> \<not> has_error not_found_result
                        then 5 / 100 else 0)))"
    and t: "computeTrust example_thresholds example_parseISO 1704153600000
              not_found_result = Some tm \<longrightarrow>
            integrity (dimensions tm) = computeIntegrity not_found_result"
    by blast+
  from v a b c have w: "computeIntegrity not_found_result = 7 / 10" by simp
  with t tm have "integrity (dimensions tm) = 7 / 10" by simp
  with a b c w tm show ?thesis by blast
qed


subsection \<open>Server pipeline\<close>

lemma js_or_string: "js_or v (JStr (c # cs)) = JStr sid \<Longrightarrow> sid \<noteq> []"
  by (cases v) (auto simp: js_or_def split: if_splits)

lemma toSearchResult_fields:
  assumes "toSearchResult resultObj = Some sr"
  shows "error sr = None \<and> aggregations sr = None \<and> searchId sr \<noteq> []"
proof -
  let ?events = "js_or (js_get resultObj ''events'') (JArr [])"
  let ?metadata = "js_or (js_get resultObj ''metadata'') (JObj [])"
  let ?sid = "js_or (js_prop ?metadata ''searchId'') (JStr ''unknown'')"
  let ?obj = "[(''events'', ?events),
           (''totalEvents'', js_or (js_prop ?metadata ''totalCount'') (js_length ?events)),
           (''returnedEvents'', js_length ?events),
           (''truncated'', js_or (js_prop ?metadata ''truncated'') (JBool False)),
           (''searchId'', ?sid),
           (''executionTimeMs'', js_or (js_prop ?metadata ''executionTimeMs'') (JNum 0)),
           (''error'', JUndefined),
           (''aggregations'', JUndefined)]"
  have g1: "js_get ?obj ''error'' = JUndefined" by (simp add: js_get_def)
  have g2: "js_get ?obj ''aggregations'' = JUndefined" by (simp add: js_get_def)
  have g3: "js_get ?obj ''searchId'' = ?sid" by (simp add: js_get_def)
  have p: "SplunkSearchResultSchema_parse (JObj ?obj) = Some sr"
    using assms by (simp add: toSearchResult_def Let_def)
  obtain es tot ret tr sid ms where
      sid: "?sid = JStr sid" and
      sr: "sr = \<lparr>events = List.map_filter EventSchema_parse es, totalEvents = tot,
                  returnedEvents = ret, truncated = tr, searchId = sid,
                  executionTimeMs = ms, error = None, aggregations = None\<rparr>"
    using p unfolding SplunkSearchResultSchema_parse_def json.case g1 g2 g3
    by (auto simp: opt_string_def opt_object_def split: json.splits if_splits)
  from sid have "sid \<noteq> []" by (rule js_or_string)
  with sr show ?thesis by simp
qed

lemma generateFactors_no_error:
  "error result = None \<Longrightarrow> QueryError e \<notin> set (warnings (generateFactors result dims ms))"
  by (simp add: generateFactors_def has_error_def)

text \<open>
  Claim C10. Every search result that \<open>computeTrustForResult\<close> hands to \<open>computeTrust\<close>
  has no error and no aggregations, and \<open>computeTrust\<close> does not fail on it; so the
  authority of the trust metadata attached to a tool response is exactly 0.9, and its
  warnings hold no \<open>Query error\<close>.
\<close>

theorem pipeline_authority:
  "(toSearchResult resultObj = Some sr \<longrightarrow>
      error sr = None \<and> aggregations sr = None \<and> computeAuthority sr = 9 / 10 \<and>
      (\<exists>tm. computeTrustForResult cfg parseISO now resultObj = Some tm)) \<and>
   (computeTrustForResult cfg parseISO now resultObj = Some tm \<longrightarrow>
      authority (dimensions tm) = 9 / 10 \<and>
      (\<forall>e. QueryError e \<notin> set (warnings (trustFactors tm))))"
proof -
  have a: "toSearchResult resultObj = Some sr \<longrightarrow>
      error sr = None \<and> aggregations sr = None \<and> computeAuthority sr = 9 / 10 \<and>
      (\<exists>tm. computeTrustForResult cfg parseISO now resultObj = Some tm)"
  proof
    assume h: "toSearchResult resultObj = Some sr"
    note f = toSearchResult_fields[OF h]
    have "computeAuthority sr = 9 / 10"
      using f by (simp add: computeAuthority_def has_error_def Let_def)
    moreover have "\<exists>tm. computeTrustForResult cfg parseISO now resultObj = Some tm"
      using h computeTrust_total[of cfg parseISO now sr]
      by (auto simp: computeTrustForResult_def)
    ultimately show "error sr = None \<and> aggregations sr = None \<and> computeAuthority sr = 9 / 10 \<and>
      (\<exists>tm. computeTrustForResult cfg parseISO now resultObj = Some tm)"
      using f by simp
  qed
  have b: "computeTrustForResult cfg parseISO now resultObj = Some tm \<longrightarrow>
      authority (dimensions tm) = 9 / 10 \<and>
      (\<forall>e. QueryError e \<notin> set (warnings (trustFactors tm)))"
  proof
    assume h: "computeTrustForResult cfg parseISO now resultObj = Some tm"
    then obtain sr' where s: "toSearchResult resultObj = Some sr'"
        and t: "computeTrust cfg parseISO now sr' = Some tm"
      by (auto simp: computeTrustForResult_def split: option.splits)
    note f = toSearchResult_fields[OF s]
    from computeTrust_total[of cfg parseISO now sr'] t
    have au: "authority (dimensions tm) = computeAuthority sr'"
      and tf: "trustFactors tm =
          generateFactors sr' (dimensions tm) (snd (computeCompletenessWithDetails sr'))"
      by auto
    have "computeAuthority sr' = 9 / 10"
      using f by (simp add: computeAuthority_def has_error_def Let_def)
    with au tf f show "authority (dimensions tm) = 9 / 10 \<and>
      (\<forall>e. QueryError e \<notin> set (warnings (trustFactors tm)))"
      by (simp add: generateFactors_no_error)
  qed
  from a b show ?thesis by (rule conjI)
qed

lemma example_toSearchResult:
  "toSearchResult example_tool_result =
     Some \<lparr>events = [\<lparr>ev_time = ''2024-01-01T00:00:00'', ev_raw = ''login ok'',
                       ev_indextime = None, ev_host = Some ''web1'', ev_source = None,
                       ev_sourcetype = None, ev_index = None, ev_fields = []\<rparr>],
           totalEvents = 1, returnedEvents = 1, truncated = False, searchId = ''sid2'',
           executionTimeMs = 150, error = None, aggregations = None\<rparr>"
  by (simp add: toSearchResult_def example_tool_result_def SplunkSearchResultSchema_parse_def
        EventSchema_parse_def js_get_def js_or_def js_prop_def js_length_def opt_string_def
        opt_object_def opt_record_def List.map_filter_simps Let_def)

theorem pipeline_authority_witness:
  "\<exists>sr tm. toSearchResult example_tool_result = Some sr \<and>
      computeTrustForResult example_thresholds example_parseISO 1704153600000
        example_tool_result = Some tm \<and>
      error sr = None \<and> aggregations sr = None \<and> computeAuthority sr = 9 / 10 \<and>
      authority (dimensions tm) = 9 / 10"
proof -
  obtain sr where sr: "toSearchResult example_tool_result = Some sr"
    using example_toSearchResult by blast
  note inst = pipeline_authority[of example_tool_result sr example_thresholds example_parseISO
      1704153600000]
  from inst sr obtain tm where tm: "computeTrustForResult example_thresholds example_parseISO
      1704153600000 example_tool_result = Some tm"
    by blast
  from pipeline_authority[of example_tool_result sr example_thresholds example_parseISO
      1704153600000 tm] sr tm
  show ?thesis by blast
qed

end
